theory Spec2Isabelle
  imports Complex_Main
begin

section \<open>Symbolic expressions of the tensor algebra\<close>

text \<open>
  SalaMANdER builds unevaluated expressions with the operators of the form language it
  imports (\<^verbatim>\<open>from dolfin import *\<close>): every method returns an expression tree, never
  a number. The trees are modelled by the datatype \<open>expr\<close>, one constructor for each
  operator the module applies:
  \<^item> \<open>Lit r\<close> is a number as the form language holds it: a Python number written in
    the source (\<^verbatim>\<open>2.0\<close>, \<^verbatim>\<open>3\<close>, \<^verbatim>\<open>-2/3\<close>) or passed by the caller, once an operator
    has been applied to it; Python floats are idealised as reals;
  \<^item> \<open>Constant k r\<close> is the object a call \<^verbatim>\<open>Constant(r)\<close> creates: a coefficient of its
    own, told apart from every other by its count \<open>k\<close>, with the constant value \<open>r\<close>;
  \<^item> \<open>Coefficient name shape gdim\<close> is a field supplied by the caller (a displacement,
    a test function, a body force), with its \<^verbatim>\<open>ufl_shape\<close> and the dimension of the
    space it lives on;
  \<^item> \<open>Identity n\<close>, \<open>Grad\<close>, \<open>Det\<close>, \<open>Transposed\<close> (\<^verbatim>\<open>F.T\<close>), \<open>Tr\<close>, \<open>Inv\<close>, \<open>Inner\<close> are
    the functions of the same names;
  \<^item> \<open>Add\<close>, \<open>Sub\<close>, \<open>Mul\<close>, \<open>Div\<close>, \<open>Neg\<close>, \<open>Power\<close> are the Python operators
    \<^verbatim>\<open>+ - * / -x **\<close> between expressions.

  The constructors are the trees; whether the form language builds a tree is a matter
  of the shapes of the operands (below). A tree is kept as the operators are applied:
  where the form language would fold a product with a literal zero, or Python would
  multiply two numbers before the form language sees them, the tree of the model is the
  unfolded one, with the same value.
\<close>

datatype expr =
    Lit real
  | Constant nat real
  | Coefficient string "nat list" nat
  | Identity nat
  | Grad expr
  | Det expr
  | Transposed expr
  | Tr expr
  | Inv expr
  | Inner expr expr
  | Add expr expr
  | Sub expr expr
  | Mul expr expr
  | Div expr expr
  | Neg expr
  | Power expr expr

text \<open>
  An integration measure (\<^verbatim>\<open>dx\<close>, \<^verbatim>\<open>ds\<close>, or one restricted to a subdomain) is opaque to
  the module: it is only ever multiplied onto an integrand, which gives a form.
\<close>

datatype measure = Measure string nat

datatype form = Integral (integrand: expr) (form_measure: measure)

text \<open>The geometric dimension of an expression is that of the first field in it.\<close>

fun geometric_dimension :: "expr \<Rightarrow> nat option" where
  "geometric_dimension (Lit r) = None"
| "geometric_dimension (Constant k r) = None"
| "geometric_dimension (Coefficient name shape gdim) = Some gdim"
| "geometric_dimension (Identity n) = None"
| "geometric_dimension (Grad a) = geometric_dimension a"
| "geometric_dimension (Det a) = geometric_dimension a"
| "geometric_dimension (Transposed a) = geometric_dimension a"
| "geometric_dimension (Tr a) = geometric_dimension a"
| "geometric_dimension (Inv a) = geometric_dimension a"
| "geometric_dimension (Neg a) = geometric_dimension a"
| "geometric_dimension (Inner a b) =
     (case geometric_dimension a of Some d \<Rightarrow> Some d | None \<Rightarrow> geometric_dimension b)"
| "geometric_dimension (Add a b) =
     (case geometric_dimension a of Some d \<Rightarrow> Some d | None \<Rightarrow> geometric_dimension b)"
| "geometric_dimension (Sub a b) =
     (case geometric_dimension a of Some d \<Rightarrow> Some d | None \<Rightarrow> geometric_dimension b)"
| "geometric_dimension (Mul a b) =
     (case geometric_dimension a of Some d \<Rightarrow> Some d | None \<Rightarrow> geometric_dimension b)"
| "geometric_dimension (Div a b) =
     (case geometric_dimension a of Some d \<Rightarrow> Some d | None \<Rightarrow> geometric_dimension b)"
| "geometric_dimension (Power a b) =
     (case geometric_dimension a of Some d \<Rightarrow> Some d | None \<Rightarrow> geometric_dimension b)"

text \<open>
  The attribute \<^verbatim>\<open>ufl_shape\<close> of an expression: the tuple of its axis sizes, empty for a
  scalar. A field carries its shape; an operator derives it from its operands.
\<close>

fun ufl_shape :: "expr \<Rightarrow> nat list" where
  "ufl_shape (Lit r) = []"
| "ufl_shape (Constant k r) = []"
| "ufl_shape (Coefficient name shape gdim) = shape"
| "ufl_shape (Identity n) = [n, n]"
| "ufl_shape (Grad a) =
     ufl_shape a @ [case geometric_dimension a of Some d \<Rightarrow> d | None \<Rightarrow> 0]"
| "ufl_shape (Det a) = []"
| "ufl_shape (Transposed a) = rev (ufl_shape a)"
| "ufl_shape (Tr a) = []"
| "ufl_shape (Inv a) = ufl_shape a"
| "ufl_shape (Inner a b) = []"
| "ufl_shape (Add a b) = ufl_shape a"
| "ufl_shape (Sub a b) = ufl_shape a"
| "ufl_shape (Mul a b) =
     (if ufl_shape a = [] then ufl_shape b
      else if ufl_shape b = [] then ufl_shape a
      else butlast (ufl_shape a) @ tl (ufl_shape b))"
| "ufl_shape (Div a b) = ufl_shape a"
| "ufl_shape (Neg a) = ufl_shape a"
| "ufl_shape (Power a b) = []"

text \<open>
  The errors a call can end with: Python's \<^verbatim>\<open>TypeError\<close>, \<^verbatim>\<open>KeyError\<close> and
  \<^verbatim>\<open>AttributeError\<close>, and the \<^verbatim>\<open>UFLException\<close> with which the form language refuses to
  build an expression whose operands do not fit.
\<close>

datatype error =
    TypeError
  | KeyError string
  | AttributeError string
  | UFLException

text \<open>
  Two operator applications of the module can be refused on the displacement alone,
  before any property is read: \<^verbatim>\<open>grad(u)\<close>, which needs an operand with a domain, and
  the sum \<^verbatim>\<open>grad(u) + I\<close>, which needs two operands of one shape. \<open>ufl_grad\<close> and
  \<open>ufl_add\<close> are these two applications with their checks. Once the sum is built, every
  other operator application of \<^verbatim>\<open>getBasicTensors\<close> has operands that fit (lemma
  \<open>getBasicTensors_shapes\<close> below). The operators applied to what the caller supplies
  besides \<open>u\<close> (the properties, the test function, \<^verbatim>\<open>S0\<close>, \<^verbatim>\<open>J_M\<close>, the arguments of
  the shared methods) are kept as constructors: a tree is built whatever the shapes of
  these operands, and the properties proved below are about operands of the shapes the
  formulas need.
\<close>

definition ufl_grad :: "expr \<Rightarrow> error + expr" where
  "ufl_grad f =
     (case geometric_dimension f of None \<Rightarrow> Inl UFLException | Some d \<Rightarrow> Inr (Grad f))"

definition ufl_add :: "expr \<Rightarrow> expr \<Rightarrow> error + expr" where
  "ufl_add a b = (if ufl_shape a = ufl_shape b then Inr (Add a b) else Inl UFLException)"

section \<open>Elastic-parameter conversion\<close>

text \<open>
  The four conversion functions apply Python arithmetic to their arguments, which are
  expressions when called from \<^verbatim>\<open>JacobianStiffening.interiorResidual\<close>. Python
  reads \<^verbatim>\<open>2/3*x\<close> as \<^verbatim>\<open>(2/3)*x\<close> and \<^verbatim>\<open>E*nu/d\<close> as \<^verbatim>\<open>(E*nu)/d\<close>.
\<close>

definition firstLameParameter :: "expr \<Rightarrow> expr \<Rightarrow> expr" where
  "firstLameParameter E nu =
     Div (Mul E nu) (Mul (Add (Lit 1) nu) (Sub (Lit 1) (Mul (Lit 2) nu)))"

definition secondLameParameter :: "expr \<Rightarrow> expr \<Rightarrow> expr" where
  "secondLameParameter E nu = Div E (Mul (Lit 2) (Add (Lit 1) nu))"

definition bulkModulus :: "expr \<Rightarrow> expr \<Rightarrow> expr" where
  "bulkModulus E nu =
     Add (firstLameParameter E nu) (Mul (Lit (2 / 3)) (secondLameParameter E nu))"

definition shearModulus :: "expr \<Rightarrow> expr \<Rightarrow> expr" where
  "shearModulus E nu = secondLameParameter E nu"

section \<open>The material model classes\<close>

text \<open>
  The module declares four classes. \<^verbatim>\<open>MaterialModel\<close> derives from \<^verbatim>\<open>ABC\<close> and marks
  \<^verbatim>\<open>interiorResidual\<close> with \<^verbatim>\<open>@abstractmethod\<close>; the three laws derive from
  \<^verbatim>\<open>MaterialModel\<close> and each defines \<^verbatim>\<open>interiorResidual\<close> only. \<open>declares\<close> lists
  the methods written in each class body, with the abstract mark.
\<close>

datatype cls = MaterialModel | StVenantKirchoff | NeoHookean | JacobianStiffening

fun declares :: "cls \<Rightarrow> (string \<times> bool) list" where
  "declares MaterialModel =
     [(''__init__'', False),
      (''interiorResidual'', True),
      (''accelerationResidual'', False),
      (''massDampingResidual'', False),
      (''bodyforceResidual'', False),
      (''tractionBCResidual'', False),
      (''penaltyWeakBCResidual'', False),
      (''getBasicTensors'', False)]"
| "declares StVenantKirchoff = [(''interiorResidual'', False)]"
| "declares NeoHookean = [(''interiorResidual'', False)]"
| "declares JacobianStiffening = [(''interiorResidual'', False)]"

text \<open>The method resolution order: the class itself, then its base.\<close>

fun mro :: "cls \<Rightarrow> cls list" where
  "mro MaterialModel = [MaterialModel]"
| "mro StVenantKirchoff = [StVenantKirchoff, MaterialModel]"
| "mro NeoHookean = [NeoHookean, MaterialModel]"
| "mro JacobianStiffening = [JacobianStiffening, MaterialModel]"

text \<open>Attribute lookup on an instance: the first class of the order that declares the name.\<close>

definition resolve :: "cls \<Rightarrow> string \<Rightarrow> cls option" where
  "resolve c m = find (\<lambda>k. m \<in> set (map fst (declares k))) (mro c)"

text \<open>
  The abstract methods of a class, as \<^verbatim>\<open>ABCMeta\<close> computes them: the names whose
  resolved declaration carries the abstract mark.
\<close>

definition abstractmethods :: "cls \<Rightarrow> string list" where
  "abstractmethods c =
     filter (\<lambda>m. case resolve c m of
                    Some k \<Rightarrow> (m, True) \<in> set (declares k)
                  | None \<Rightarrow> False)
       (remdups (concat (map (\<lambda>k. map fst (declares k)) (mro c))))"

record material =
  cls :: cls
  rho :: expr
  props :: "string \<rightharpoonup> expr"

text \<open>
  \<^verbatim>\<open>MaterialModel.__init__\<close>, which no law overrides, stores the density and the keyword
  arguments as given. The default density \<^verbatim>\<open>Constant(0)\<close> is one object, created when
  the class body runs and shared by every instance that omits \<^verbatim>\<open>rho\<close>; its count is
  taken as 0. Instantiation \<^verbatim>\<open>C(rho, **props)\<close> runs \<^verbatim>\<open>__init__\<close>, unless the class has
  abstract methods: Python refuses to instantiate such a class.
\<close>

definition default_rho :: expr where
  "default_rho = Constant 0 0"

definition MaterialModel_init :: "cls \<Rightarrow> expr option \<Rightarrow> (string \<rightharpoonup> expr) \<Rightarrow> material" where
  "MaterialModel_init c rho_arg kwargs =
     \<lparr>cls = c,
      rho = (case rho_arg of None \<Rightarrow> default_rho | Some r \<Rightarrow> r),
      props = kwargs\<rparr>"

definition instantiate :: "cls \<Rightarrow> expr option \<Rightarrow> (string \<rightharpoonup> expr) \<Rightarrow> error + material" where
  "instantiate c rho_arg kwargs =
     (if abstractmethods c \<noteq> [] then Inl TypeError
      else Inr (MaterialModel_init c rho_arg kwargs))"

subsection \<open>Methods of \<^verbatim>\<open>MaterialModel\<close>\<close>

text \<open>
  Python's unary minus binds tighter than \<^verbatim>\<open>*\<close>: \<^verbatim>\<open>- self.rho*inner(f,v)*dx\<close> is
  \<^verbatim>\<open>((-self.rho)*inner(f,v))*dx\<close>. The measure is passed by the caller; the defaults
  \<^verbatim>\<open>dx=dx\<close> and \<^verbatim>\<open>ds=ds\<close> are the measures of the same names.
\<close>

definition accelerationResidual :: "material \<Rightarrow> expr \<Rightarrow> expr \<Rightarrow> measure \<Rightarrow> form" where
  "accelerationResidual self du_dtt v dx = Integral (Mul (rho self) (Inner du_dtt v)) dx"

definition massDampingResidual :: "material \<Rightarrow> expr \<Rightarrow> expr \<Rightarrow> expr \<Rightarrow> measure \<Rightarrow> form" where
  "massDampingResidual self du_dt c v dx =
     Integral (Mul (Mul (rho self) c) (Inner du_dt v)) dx"

definition bodyforceResidual :: "material \<Rightarrow> expr \<Rightarrow> expr \<Rightarrow> measure \<Rightarrow> form" where
  "bodyforceResidual self f v dx = Integral (Mul (Neg (rho self)) (Inner f v)) dx"

definition tractionBCResidual :: "material \<Rightarrow> expr \<Rightarrow> expr \<Rightarrow> measure \<Rightarrow> form" where
  "tractionBCResidual self h v ds = Integral (Neg (Inner v h)) ds"

definition penaltyWeakBCResidual ::
  "material \<Rightarrow> expr \<Rightarrow> expr \<Rightarrow> expr \<Rightarrow> expr \<Rightarrow> measure \<Rightarrow> form" where
  "penaltyWeakBCResidual self u v g beta ds =
     Integral (Neg (Inner (Mul beta (Sub u g)) v)) ds"

text \<open>
  \<^verbatim>\<open>getBasicTensors\<close> raises where \<^verbatim>\<open>grad(u)\<close> or \<^verbatim>\<open>grad(u) + I\<close> is refused, and
  returns the five tensors otherwise.
\<close>

definition getBasicTensors ::
  "material \<Rightarrow> expr \<Rightarrow> error + expr \<times> expr \<times> expr \<times> expr \<times> expr" where
  "getBasicTensors self u =
     (let nsd = (if ufl_shape u = [] then 0 else ufl_shape u ! 0);
          I = Identity nsd
      in (case ufl_grad u of Inl e \<Rightarrow> Inl e | Inr G \<Rightarrow>
         (case ufl_add G I of Inl e \<Rightarrow> Inl e | Inr F \<Rightarrow>
            (let J = Det F;
                 C = Mul (Transposed F) F;
                 E = Mul (Lit 0.5) (Sub C I)
             in Inr (I, F, J, C, E)))))"

text \<open>Subscription \<^verbatim>\<open>self.props[key]\<close> of the keyword dictionary.\<close>

definition getitem :: "(string \<rightharpoonup> expr) \<Rightarrow> string \<Rightarrow> error + expr" where
  "getitem d key = (case d key of None \<Rightarrow> Inl (KeyError key) | Some x \<Rightarrow> Inr x)"

subsection \<open>The three laws\<close>

text \<open>
  Each \<^verbatim>\<open>interiorResidual\<close> calls \<^verbatim>\<open>getBasicTensors\<close> (an exception of which ends the
  call), computes a local stress \<^verbatim>\<open>S\<close> and returns \<^verbatim>\<open>inner(F*S,grad(v))*dx\<close>. The model
  splits each body at that point: \<open>\<dots>_S\<close> is the value of the local \<^verbatim>\<open>S\<close>, with the
  dictionary lookups in the order Python performs them (left to right), and
  \<open>\<dots>_interiorResidual\<close> is the whole method. \<open>\<dots>_rhs\<close> is the right-hand side of the
  assignment to \<^verbatim>\<open>S\<close>, as a function of the values it reads.

  A call \<^verbatim>\<open>Constant(r)\<close> creates a new object and advances the count of the objects
  created so far. The two methods that call it take that count and return it advanced,
  with their result.
\<close>

definition StVenantKirchoff_rhs :: "expr \<Rightarrow> expr \<Rightarrow> expr \<Rightarrow> expr \<Rightarrow> expr" where
  "StVenantKirchoff_rhs kappa mu I E =
     Add (Mul (Mul kappa (Tr E)) I)
         (Mul (Mul (Lit 2.0) mu) (Sub E (Div (Mul (Tr E) I) (Lit 3.0))))"

definition StVenantKirchoff_S :: "material \<Rightarrow> expr \<Rightarrow> error + expr" where
  "StVenantKirchoff_S self u =
     (case getBasicTensors self u of Inl e \<Rightarrow> Inl e | Inr (I, F, J, C, E) \<Rightarrow>
        (case getitem (props self) ''kappa'' of Inl e \<Rightarrow> Inl e | Inr kappa \<Rightarrow>
        (case getitem (props self) ''mu'' of Inl e \<Rightarrow> Inl e | Inr mu \<Rightarrow>
          Inr (StVenantKirchoff_rhs kappa mu I E))))"

definition StVenantKirchoff_interiorResidual ::
  "material \<Rightarrow> expr \<Rightarrow> expr \<Rightarrow> measure \<Rightarrow> error + form" where
  "StVenantKirchoff_interiorResidual self u v dx =
     (case getBasicTensors self u of Inl e \<Rightarrow> Inl e | Inr (I, F, J, C, E) \<Rightarrow>
        (case StVenantKirchoff_S self u of Inl e \<Rightarrow> Inl e | Inr S \<Rightarrow>
          Inr (Integral (Inner (Mul F S) (Grad v)) dx)))"

text \<open>
  In the Neo-Hookean law \<^verbatim>\<open>nsd\<close> is the expression \<^verbatim>\<open>tr(I)\<close>, \<^verbatim>\<open>-2/3\<close> is the Python
  number, and \<^verbatim>\<open>(tr(C) + (3-nsd))/3*inv(C)\<close> is \<^verbatim>\<open>((tr(C) + (3-nsd))/3)*inv(C)\<close>.
  The optional argument \<^verbatim>\<open>S0\<close> is \<^verbatim>\<open>None\<close> when omitted; the method then creates a
  \<^verbatim>\<open>Constant(0)\<close>, before it reads the properties.
\<close>

definition NeoHookean_rhs ::
  "expr \<Rightarrow> expr \<Rightarrow> expr \<Rightarrow> expr \<Rightarrow> expr \<Rightarrow> expr \<Rightarrow> expr" where
  "NeoHookean_rhs mu kappa I J C nsd =
     Add (Mul (Mul mu (Power J (Lit (- 2 / 3))))
              (Sub I (Mul (Div (Add (Tr C) (Sub (Lit 3) nsd)) (Lit 3)) (Inv C))))
         (Mul (Mul (Div kappa (Lit 2)) (Sub (Power J (Lit 2)) (Lit 1))) (Inv C))"

definition NeoHookean_S :: "material \<Rightarrow> expr \<Rightarrow> error + expr" where
  "NeoHookean_S self u =
     (case getBasicTensors self u of Inl e \<Rightarrow> Inl e | Inr (I, F, J, C, E) \<Rightarrow>
        (let nsd = Tr I in
        (case getitem (props self) ''mu'' of Inl e \<Rightarrow> Inl e | Inr mu \<Rightarrow>
        (case getitem (props self) ''kappa'' of Inl e \<Rightarrow> Inl e | Inr kappa \<Rightarrow>
          Inr (NeoHookean_rhs mu kappa I J C nsd)))))"

definition NeoHookean_interiorResidual ::
  "material \<Rightarrow> expr \<Rightarrow> expr \<Rightarrow> expr option \<Rightarrow> measure \<Rightarrow> nat \<Rightarrow> (error + form) \<times> nat" where
  "NeoHookean_interiorResidual self u v S0_arg dx k =
     (case getBasicTensors self u of Inl e \<Rightarrow> (Inl e, k) | Inr (I, F, J, C, E) \<Rightarrow>
        (case (case S0_arg of None \<Rightarrow> (Mul (Constant k 0) I, Suc k) | Some s \<Rightarrow> (s, k)) of
           (S0, k') \<Rightarrow>
             (case NeoHookean_S self u of
                Inl e \<Rightarrow> (Inl e, k')
              | Inr S \<Rightarrow> (Inr (Integral (Inner (Mul F (Add S S0)) (Grad v)) dx), k'))))"

text \<open>
  The stiffening law creates \<^verbatim>\<open>Constant(1.0)\<close> and \<^verbatim>\<open>Constant(0.3)\<close>, in this order, and
  derives its moduli from them; \<^verbatim>\<open>pow(J_M,p)\<close> is \<^verbatim>\<open>J_M**p\<close>. The key \<^verbatim>\<open>'power_J_M'\<close>
  is looked up once for \<^verbatim>\<open>K\<close> and once more for \<^verbatim>\<open>mu\<close>. (The docstring of the class
  calls the property \<^verbatim>\<open>'power'\<close>; the body reads \<^verbatim>\<open>'power_J_M'\<close>, and the model follows
  the body.) \<open>k\<close> is the count when the method is entered.
\<close>

definition JacobianStiffening_K :: "material \<Rightarrow> expr \<Rightarrow> nat \<Rightarrow> error + expr" where
  "JacobianStiffening_K self J_M k =
     (let fictitious_E = Constant k 1.0; fictitious_nu = Constant (Suc k) 0.3 in
      (case getitem (props self) ''power_J_M'' of Inl e \<Rightarrow> Inl e | Inr p \<Rightarrow>
        Inr (bulkModulus (Div fictitious_E (Power J_M p)) fictitious_nu)))"

definition JacobianStiffening_mu :: "material \<Rightarrow> expr \<Rightarrow> nat \<Rightarrow> error + expr" where
  "JacobianStiffening_mu self J_M k =
     (let fictitious_E = Constant k 1.0; fictitious_nu = Constant (Suc k) 0.3 in
      (case getitem (props self) ''power_J_M'' of Inl e \<Rightarrow> Inl e | Inr p \<Rightarrow>
        Inr (shearModulus (Div fictitious_E (Power J_M p)) fictitious_nu)))"

definition JacobianStiffening_rhs :: "expr \<Rightarrow> expr \<Rightarrow> expr \<Rightarrow> expr \<Rightarrow> expr" where
  "JacobianStiffening_rhs K mu I E =
     Add (Mul (Mul K (Tr E)) I)
         (Mul (Mul (Lit 2.0) mu) (Sub E (Div (Mul (Tr E) I) (Lit 3.0))))"

definition JacobianStiffening_S :: "material \<Rightarrow> expr \<Rightarrow> expr \<Rightarrow> nat \<Rightarrow> error + expr" where
  "JacobianStiffening_S self u J_M k =
     (case getBasicTensors self u of Inl e \<Rightarrow> Inl e | Inr (I, F, J, C, E) \<Rightarrow>
        (case JacobianStiffening_K self J_M k of Inl e \<Rightarrow> Inl e | Inr K \<Rightarrow>
        (case JacobianStiffening_mu self J_M k of Inl e \<Rightarrow> Inl e | Inr mu \<Rightarrow>
          Inr (JacobianStiffening_rhs K mu I E))))"

definition JacobianStiffening_interiorResidual ::
  "material \<Rightarrow> expr \<Rightarrow> expr \<Rightarrow> expr \<Rightarrow> measure \<Rightarrow> nat \<Rightarrow> (error + form) \<times> nat" where
  "JacobianStiffening_interiorResidual self u v J_M dx k =
     (case getBasicTensors self u of Inl e \<Rightarrow> (Inl e, k) | Inr (I, F, J, C, E) \<Rightarrow>
        (case JacobianStiffening_S self u J_M k of
           Inl e \<Rightarrow> (Inl e, k + 2)
         | Inr S \<Rightarrow> (Inr (Integral (Inner (Mul F S) (Grad v)) dx), k + 2)))"

subsection \<open>Calling a method on an instance\<close>

text \<open>
  What a method body can read and change is the instance it is called on and the count
  of the objects created so far: the two make up the \<open>world\<close> a call runs in. A call
  \<^verbatim>\<open>m.name(args)\<close> looks the name up along the classes of the instance, runs the body
  found there and leaves the world that body leaves. The third argument of
  \<open>CallInteriorResidual\<close> is the extra argument of the law, when the caller gives one:
  \<^verbatim>\<open>S0\<close> for the Neo-Hookean law, \<^verbatim>\<open>J_M\<close> for the stiffening law.
\<close>

record world =
  obj :: material
  count :: nat

datatype call =
    CallInteriorResidual expr expr "expr option" measure
  | CallAccelerationResidual expr expr measure
  | CallMassDampingResidual expr expr expr measure
  | CallBodyforceResidual expr expr measure
  | CallTractionBCResidual expr expr measure
  | CallPenaltyWeakBCResidual expr expr expr expr measure
  | CallGetBasicTensors expr

datatype result =
    NoneResult
  | FormResult form
  | TensorsResult "expr \<times> expr \<times> expr \<times> expr \<times> expr"

fun method_name :: "call \<Rightarrow> string" where
  "method_name (CallInteriorResidual u v extra dx) = ''interiorResidual''"
| "method_name (CallAccelerationResidual du_dtt v dx) = ''accelerationResidual''"
| "method_name (CallMassDampingResidual du_dt c v dx) = ''massDampingResidual''"
| "method_name (CallBodyforceResidual f v dx) = ''bodyforceResidual''"
| "method_name (CallTractionBCResidual h v ds) = ''tractionBCResidual''"
| "method_name (CallPenaltyWeakBCResidual u v g beta ds) = ''penaltyWeakBCResidual''"
| "method_name (CallGetBasicTensors u) = ''getBasicTensors''"

definition form_result :: "error + form \<Rightarrow> error + result" where
  "form_result r = (case r of Inl e \<Rightarrow> Inl e | Inr f \<Rightarrow> Inr (FormResult f))"

definition tensors_result ::
  "error + expr \<times> expr \<times> expr \<times> expr \<times> expr \<Rightarrow> error + result" where
  "tensors_result r = (case r of Inl e \<Rightarrow> Inl e | Inr t \<Rightarrow> Inr (TensorsResult t))"

text \<open>
  \<open>run_body k c w\<close> runs the body that class \<open>k\<close> declares for the call \<open>c\<close> in the world
  \<open>w\<close>, and gives the result with the world the body leaves. No body has an assignment
  to \<^verbatim>\<open>self.rho\<close> or \<^verbatim>\<open>self.props\<close>, so each leaves the instance it found; the bodies
  that call \<^verbatim>\<open>Constant\<close> leave a larger count. The body of the abstract
  \<^verbatim>\<open>interiorResidual\<close> is \<^verbatim>\<open>pass\<close>. A call whose arguments do not fit the signature found
  (an extra argument for St. Venant-Kirchhoff, none for the stiffening law) is a
  \<^verbatim>\<open>TypeError\<close>.
\<close>

fun run_body :: "cls \<Rightarrow> call \<Rightarrow> world \<Rightarrow> (error + result) \<times> world" where
  "run_body MaterialModel (CallInteriorResidual u v extra dx) w =
     (case extra of None \<Rightarrow> (Inr NoneResult, w) | Some x \<Rightarrow> (Inl TypeError, w))"
| "run_body MaterialModel (CallAccelerationResidual du_dtt v dx) w =
     (Inr (FormResult (accelerationResidual (obj w) du_dtt v dx)), w)"
| "run_body MaterialModel (CallMassDampingResidual du_dt c v dx) w =
     (Inr (FormResult (massDampingResidual (obj w) du_dt c v dx)), w)"
| "run_body MaterialModel (CallBodyforceResidual f v dx) w =
     (Inr (FormResult (bodyforceResidual (obj w) f v dx)), w)"
| "run_body MaterialModel (CallTractionBCResidual h v ds) w =
     (Inr (FormResult (tractionBCResidual (obj w) h v ds)), w)"
| "run_body MaterialModel (CallPenaltyWeakBCResidual u v g beta ds) w =
     (Inr (FormResult (penaltyWeakBCResidual (obj w) u v g beta ds)), w)"
| "run_body MaterialModel (CallGetBasicTensors u) w =
     (tensors_result (getBasicTensors (obj w) u), w)"
| "run_body StVenantKirchoff (CallInteriorResidual u v extra dx) w =
     (case extra of
        None \<Rightarrow> (form_result (StVenantKirchoff_interiorResidual (obj w) u v dx), w)
      | Some x \<Rightarrow> (Inl TypeError, w))"
| "run_body NeoHookean (CallInteriorResidual u v extra dx) w =
     (case NeoHookean_interiorResidual (obj w) u v extra dx (count w) of
        (r, k') \<Rightarrow> (form_result r, w\<lparr>count := k'\<rparr>))"
| "run_body JacobianStiffening (CallInteriorResidual u v extra dx) w =
     (case extra of
        None \<Rightarrow> (Inl TypeError, w)
      | Some J_M \<Rightarrow>
          (case JacobianStiffening_interiorResidual (obj w) u v J_M dx (count w) of
             (r, k') \<Rightarrow> (form_result r, w\<lparr>count := k'\<rparr>)))"
| "run_body k c w = (Inl (AttributeError (method_name c)), w)"

definition invoke :: "world \<Rightarrow> call \<Rightarrow> (error + result) \<times> world" where
  "invoke w c =
     (case resolve (cls (obj w)) (method_name c) of
        None \<Rightarrow> (Inl (AttributeError (method_name c)), w)
      | Some k \<Rightarrow> run_body k c w)"


section \<open>The value of an expression at a point\<close>

text \<open>
  At a point of the domain an expression has a value: a scalar, a vector or a matrix of
  reals (a list of rows). The value of a field and of a gradient at the point are given
  from outside, by the discretisation; every other operator has its usual meaning in
  linear algebra, and no value where the shapes of its operands do not fit or where
  the operation is singular (division by zero, the inverse of a singular matrix).
\<close>

datatype val = Sc real | Vec "real list" | Mat "real list list"

type_synonym env = "expr \<Rightarrow> val option"

definition dot :: "real list \<Rightarrow> real list \<Rightarrow> real" where
  "dot x y = sum_list (map2 (*) x y)"

definition ncols :: "real list list \<Rightarrow> nat" where
  "ncols A = (case A of [] \<Rightarrow> 0 | r # rs \<Rightarrow> length r)"

definition rectangular :: "real list list \<Rightarrow> bool" where
  "rectangular A = list_all (\<lambda>r. length r = ncols A) A"

definition is_square :: "real list list \<Rightarrow> bool" where
  "is_square A = list_all (\<lambda>r. length r = length A) A"

definition identity_mat :: "nat \<Rightarrow> real list list" where
  "identity_mat n = map (\<lambda>i. map (\<lambda>j. if i = j then 1 else 0) [0..<n]) [0..<n]"

definition zero_mat :: "nat \<Rightarrow> real list list" where
  "zero_mat n = replicate n (replicate n 0)"

definition mat_transpose :: "real list list \<Rightarrow> real list list" where
  "mat_transpose A = map (\<lambda>j. map (\<lambda>r. r ! j) A) [0..<ncols A]"

definition mat_mul :: "real list list \<Rightarrow> real list list \<Rightarrow> real list list" where
  "mat_mul A B = map (\<lambda>r. map (dot r) (mat_transpose B)) A"

definition mat_vec :: "real list list \<Rightarrow> real list \<Rightarrow> real list" where
  "mat_vec A x = map (\<lambda>r. dot r x) A"

definition trace :: "real list list \<Rightarrow> real" where
  "trace A = sum_list (map (\<lambda>i. A ! i ! i) [0..<length A])"

definition del :: "nat \<Rightarrow> 'a list \<Rightarrow> 'a list" where
  "del k xs = take k xs @ drop (Suc k) xs"

text \<open>The determinant, expanded along the first row.\<close>

function det :: "real list list \<Rightarrow> real" where
  "det [] = 1"
| "det (r # rs) =
     sum_list (map (\<lambda>j. (- 1) ^ j * r ! j * det (map (del j) rs)) [0..<length r])"
  by pat_completeness auto
termination
  by (relation "measure length") auto

definition minor :: "nat \<Rightarrow> nat \<Rightarrow> real list list \<Rightarrow> real list list" where
  "minor i j A = map (del j) (del i A)"

text \<open>The inverse, as the adjugate over the determinant.\<close>

definition mat_inv :: "real list list \<Rightarrow> real list list" where
  "mat_inv A =
     map (\<lambda>i. map (\<lambda>j. (- 1) ^ (i + j) * det (minor j i A) / det A) [0..<length A])
       [0..<length A]"

fun val_map :: "(real \<Rightarrow> real) \<Rightarrow> val \<Rightarrow> val" where
  "val_map f (Sc a) = Sc (f a)"
| "val_map f (Vec x) = Vec (map f x)"
| "val_map f (Mat A) = Mat (map (map f) A)"

fun val_zip :: "(real \<Rightarrow> real \<Rightarrow> real) \<Rightarrow> val \<Rightarrow> val \<Rightarrow> val option" where
  "val_zip f (Sc a) (Sc b) = Some (Sc (f a b))"
| "val_zip f (Vec x) (Vec y) =
     (if length x = length y then Some (Vec (map2 f x y)) else None)"
| "val_zip f (Mat A) (Mat B) =
     (if map length A = map length B then Some (Mat (map2 (map2 f) A B)) else None)"
| "val_zip f a b = None"

fun val_mul :: "val \<Rightarrow> val \<Rightarrow> val option" where
  "val_mul (Sc a) b = Some (val_map (\<lambda>x. a * x) b)"
| "val_mul (Vec x) (Sc b) = Some (Vec (map (\<lambda>t. t * b) x))"
| "val_mul (Mat A) (Sc b) = Some (Mat (map (map (\<lambda>t. t * b)) A))"
| "val_mul (Mat A) (Mat B) =
     (if list_all (\<lambda>r. length r = length B) A \<and> rectangular B
      then Some (Mat (mat_mul A B)) else None)"
| "val_mul (Mat A) (Vec x) =
     (if list_all (\<lambda>r. length r = length x) A then Some (Vec (mat_vec A x)) else None)"
| "val_mul (Vec x) b = None"

fun val_div :: "val \<Rightarrow> val \<Rightarrow> val option" where
  "val_div a (Sc b) = (if b = 0 then None else Some (val_map (\<lambda>x. x / b) a))"
| "val_div a b = None"

fun val_inner :: "val \<Rightarrow> val \<Rightarrow> val option" where
  "val_inner (Sc a) (Sc b) = Some (Sc (a * b))"
| "val_inner (Vec x) (Vec y) = (if length x = length y then Some (Sc (dot x y)) else None)"
| "val_inner (Mat A) (Mat B) =
     (if map length A = map length B then Some (Sc (sum_list (map2 dot A B))) else None)"
| "val_inner a b = None"

text \<open>
  Real powers: a positive base takes any exponent; zero takes the non-negative ones; a
  negative base takes whole exponents only.
\<close>

definition real_pow :: "real \<Rightarrow> real \<Rightarrow> real option" where
  "real_pow a b =
     (if 0 < a then Some (a powr b)
      else if a = 0 then (if 0 < b then Some 0 else if b = 0 then Some 1 else None)
      else if b = of_int \<lfloor>b\<rfloor> then Some (power_int a \<lfloor>b\<rfloor>)
      else None)"

fun val_pow :: "val \<Rightarrow> val \<Rightarrow> val option" where
  "val_pow (Sc a) (Sc b) = map_option Sc (real_pow a b)"
| "val_pow a b = None"

fun val_det :: "val \<Rightarrow> val option" where
  "val_det (Mat A) = (if is_square A then Some (Sc (det A)) else None)"
| "val_det a = None"

fun val_tr :: "val \<Rightarrow> val option" where
  "val_tr (Mat A) = (if is_square A then Some (Sc (trace A)) else None)"
| "val_tr a = None"

fun val_transpose :: "val \<Rightarrow> val option" where
  "val_transpose (Mat A) = (if rectangular A then Some (Mat (mat_transpose A)) else None)"
| "val_transpose a = None"

fun val_inv :: "val \<Rightarrow> val option" where
  "val_inv (Mat A) =
     (if is_square A \<and> det A \<noteq> 0 then Some (Mat (mat_inv A)) else None)"
| "val_inv a = None"

definition bind2 :: "val option \<Rightarrow> val option \<Rightarrow> (val \<Rightarrow> val \<Rightarrow> val option) \<Rightarrow> val option" where
  "bind2 x y f =
     (case x of None \<Rightarrow> None | Some a \<Rightarrow> (case y of None \<Rightarrow> None | Some b \<Rightarrow> f a b))"

fun eval :: "env \<Rightarrow> expr \<Rightarrow> val option" where
  "eval \<rho> (Lit r) = Some (Sc r)"
| "eval \<rho> (Constant k r) = Some (Sc r)"
| "eval \<rho> (Coefficient name shape gdim) = \<rho> (Coefficient name shape gdim)"
| "eval \<rho> (Identity n) = Some (Mat (identity_mat n))"
| "eval \<rho> (Grad a) = \<rho> (Grad a)"
| "eval \<rho> (Det a) = Option.bind (eval \<rho> a) val_det"
| "eval \<rho> (Transposed a) = Option.bind (eval \<rho> a) val_transpose"
| "eval \<rho> (Tr a) = Option.bind (eval \<rho> a) val_tr"
| "eval \<rho> (Inv a) = Option.bind (eval \<rho> a) val_inv"
| "eval \<rho> (Neg a) = map_option (val_map uminus) (eval \<rho> a)"
| "eval \<rho> (Inner a b) = bind2 (eval \<rho> a) (eval \<rho> b) val_inner"
| "eval \<rho> (Add a b) = bind2 (eval \<rho> a) (eval \<rho> b) (val_zip (+))"
| "eval \<rho> (Sub a b) = bind2 (eval \<rho> a) (eval \<rho> b) (val_zip (-))"
| "eval \<rho> (Mul a b) = bind2 (eval \<rho> a) (eval \<rho> b) val_mul"
| "eval \<rho> (Div a b) = bind2 (eval \<rho> a) (eval \<rho> b) val_div"
| "eval \<rho> (Power a b) = bind2 (eval \<rho> a) (eval \<rho> b) val_pow"

section \<open>Notions the properties are stated with\<close>

text \<open>The five residual methods every law inherits, and the three laws.\<close>

definition shared_methods :: "string list" where
  "shared_methods =
     [''accelerationResidual'', ''massDampingResidual'', ''bodyforceResidual'',
      ''tractionBCResidual'', ''penaltyWeakBCResidual'']"

definition concrete_laws :: "cls list" where
  "concrete_laws = [StVenantKirchoff, NeoHookean, JacobianStiffening]"

text \<open>A property is usable at a point when it is present and its value there is a scalar.\<close>

definition is_scalar :: "env \<Rightarrow> expr \<Rightarrow> bool" where
  "is_scalar \<rho> e = (case eval \<rho> e of Some (Sc x) \<Rightarrow> True | _ \<Rightarrow> False)"

definition has_scalar :: "env \<Rightarrow> material \<Rightarrow> string \<Rightarrow> bool" where
  "has_scalar \<rho> self key =
     (case props self key of None \<Rightarrow> False | Some e \<Rightarrow> is_scalar \<rho> e)"

text \<open>
  The stiffening law divides by \<^verbatim>\<open>pow(J_M, power_J_M)\<close>: the power has to have a
  value, and one other than zero.
\<close>

definition has_nonzero_power :: "env \<Rightarrow> material \<Rightarrow> expr \<Rightarrow> bool" where
  "has_nonzero_power \<rho> self J_M =
     (case props self ''power_J_M'' of
        None \<Rightarrow> False
      | Some p \<Rightarrow> (case eval \<rho> (Power J_M p) of Some (Sc q) \<Rightarrow> q \<noteq> 0 | _ \<Rightarrow> False))"

definition stress_vanishes :: "env \<Rightarrow> nat \<Rightarrow> error + expr \<Rightarrow> bool" where
  "stress_vanishes \<rho> n r =
     (case r of Inl e \<Rightarrow> False | Inr S \<Rightarrow> eval \<rho> S = Some (Mat (zero_mat n)))"

definition residual_vanishes :: "env \<Rightarrow> measure \<Rightarrow> error + form \<Rightarrow> bool" where
  "residual_vanishes \<rho> dx r =
     (case r of
        Inl e \<Rightarrow> False
      | Inr f \<Rightarrow> form_measure f = dx \<and> eval \<rho> (integrand f) = Some (Sc 0))"

text \<open>
  What a form denotes at a point: the value of its integrand there, and the measure it
  is integrated with. Two forms with the same denotation at every point are the same
  integral.
\<close>

definition form_value :: "env \<Rightarrow> form \<Rightarrow> val option \<times> measure" where
  "form_value \<rho> f = (eval \<rho> (integrand f), form_measure f)"

definition residual_value :: "env \<Rightarrow> error + form \<Rightarrow> error + val option \<times> measure" where
  "residual_value \<rho> r = (case r of Inl e \<Rightarrow> Inl e | Inr f \<Rightarrow> Inr (form_value \<rho> f))"



text \<open>
  A displacement the tensors can be built from: a field with \<open>n\<close> components on a domain
  of dimension \<open>n\<close>.
\<close>

definition vector_field :: "nat \<Rightarrow> expr \<Rightarrow> bool" where
  "vector_field n u = (ufl_shape u = [n] \<and> geometric_dimension u = Some n)"

text \<open>
  The formulas of the specification for the shared contributions, written as it states
  them: the sign in front of the whole integrand, the traction before the test function.
\<close>

definition spec_accelerationResidual :: "expr \<Rightarrow> expr \<Rightarrow> expr \<Rightarrow> measure \<Rightarrow> form" where
  "spec_accelerationResidual density a v dx = Integral (Mul density (Inner a v)) dx"

definition spec_massDampingResidual ::
  "expr \<Rightarrow> expr \<Rightarrow> expr \<Rightarrow> expr \<Rightarrow> measure \<Rightarrow> form" where
  "spec_massDampingResidual density vdot c v dx =
     Integral (Mul (Mul density c) (Inner vdot v)) dx"

definition spec_bodyforceResidual :: "expr \<Rightarrow> expr \<Rightarrow> expr \<Rightarrow> measure \<Rightarrow> form" where
  "spec_bodyforceResidual density f v dx = Integral (Neg (Mul density (Inner f v))) dx"

definition spec_tractionBCResidual :: "expr \<Rightarrow> expr \<Rightarrow> measure \<Rightarrow> form" where
  "spec_tractionBCResidual h v ds = Integral (Neg (Inner h v)) ds"

definition spec_penaltyWeakBCResidual ::
  "expr \<Rightarrow> expr \<Rightarrow> expr \<Rightarrow> expr \<Rightarrow> measure \<Rightarrow> form" where
  "spec_penaltyWeakBCResidual u v g beta ds =
     Integral (Neg (Inner (Mul beta (Sub u g)) v)) ds"

text \<open>
  The spatial dimension as the specification words it: zero for a shapeless field,
  else the size of the first axis.
\<close>

definition spec_nsd :: "expr \<Rightarrow> nat" where
  "spec_nsd u = (case ufl_shape u of [] \<Rightarrow> 0 | n # s \<Rightarrow> n)"

text \<open>
  \<open>mat_of n f\<close> is the \<open>n\<close> by \<open>n\<close> matrix with entries \<open>f i j\<close>, and \<open>svk_entries\<close> gives
  the entries of the St. Venant-Kirchhoff stress for a strain with entries \<open>a i j\<close>, bulk
  modulus \<open>k\<close> and shear modulus \<open>m\<close>:
  \<open>k tr(a) \<delta>\<^sub>i\<^sub>j + 2 m (a\<^sub>i\<^sub>j - tr(a) \<delta>\<^sub>i\<^sub>j / 3)\<close>.
\<close>

definition mat_of :: "nat \<Rightarrow> (nat \<Rightarrow> nat \<Rightarrow> real) \<Rightarrow> real list list" where
  "mat_of n f = map (\<lambda>i. map (\<lambda>j. f i j) [0..<n]) [0..<n]"



section \<open>Method lookup and instantiation\<close>

lemma resolve_interiorResidual: "resolve c ''interiorResidual'' = Some c"
  by (cases c) (simp_all add: resolve_def)

lemma resolve_shared:
  "m \<in> set shared_methods \<Longrightarrow> resolve c m = Some MaterialModel"
  by (cases c) (auto simp: resolve_def shared_methods_def)

lemma resolve_getBasicTensors: "resolve c ''getBasicTensors'' = Some MaterialModel"
  by (cases c) (simp_all add: resolve_def)

lemma abstractmethods_MaterialModel: "abstractmethods MaterialModel = [''interiorResidual'']"
  by (simp add: abstractmethods_def resolve_def)

lemma abstractmethods_concrete: "c \<in> set concrete_laws \<Longrightarrow> abstractmethods c = []"
  by (auto simp: concrete_laws_def abstractmethods_def resolve_def)

lemma MaterialModel_init_sel:
  "cls (MaterialModel_init c rho_arg kwargs) = c"
  "props (MaterialModel_init c rho_arg kwargs) = kwargs"
  "rho (MaterialModel_init c None kwargs) = default_rho"
  "rho (MaterialModel_init c (Some r) kwargs) = r"
  by (simp_all add: MaterialModel_init_def)

lemma instantiate_concrete:
  assumes "c \<in> set concrete_laws"
  shows "instantiate c rho_arg kwargs = Inr (MaterialModel_init c rho_arg kwargs)"
  using abstractmethods_concrete [OF assms] by (simp add: instantiate_def)

section \<open>When the kinematic tensors are built\<close>

lemma getBasicTensors_vector_field:
  assumes "vector_field n u"
  shows "getBasicTensors self u =
     Inr (Identity n,
          Add (Grad u) (Identity n),
          Det (Add (Grad u) (Identity n)),
          Mul (Transposed (Add (Grad u) (Identity n))) (Add (Grad u) (Identity n)),
          Mul (Lit (1 / 2))
            (Sub (Mul (Transposed (Add (Grad u) (Identity n))) (Add (Grad u) (Identity n)))
                 (Identity n)))"
  using assms
  by (simp add: vector_field_def getBasicTensors_def ufl_grad_def ufl_add_def Let_def)

lemma getBasicTensors_Inr_vector_field:
  assumes "getBasicTensors self u = Inr t"
  shows "\<exists>n. vector_field n u"
proof -
  from assms obtain d where d: "geometric_dimension u = Some d"
    by (cases "geometric_dimension u")
       (simp_all add: getBasicTensors_def ufl_grad_def Let_def)
  from assms d have s: "ufl_shape (Grad u) =
      ufl_shape (Identity (if ufl_shape u = [] then 0 else ufl_shape u ! 0))"
    by (simp add: getBasicTensors_def ufl_grad_def ufl_add_def Let_def split: if_splits)
  show ?thesis
  proof (cases "ufl_shape u")
    case Nil
    with s d show ?thesis by simp
  next
    case (Cons a as)
    with s d have "as = []" and "a = d" by simp_all
    with Cons d show ?thesis by (auto simp: vector_field_def)
  qed
qed

lemma getBasicTensors_Inl:
  assumes "getBasicTensors self u = Inl e"
  shows "e = UFLException"
  using assms
  by (simp add: getBasicTensors_def ufl_grad_def ufl_add_def Let_def
      split: option.splits if_splits)

lemma getBasicTensors_self: "getBasicTensors self u = getBasicTensors self' u"
  by (simp add: getBasicTensors_def)

section \<open>Calls and the world they leave\<close>

lemma run_body_obj: "obj (snd (run_body k c w)) = obj w"
  by (cases "(k, c, w)" rule: run_body.cases)
     (simp_all split: option.split prod.split)


lemma invoke_obj: "obj (snd (invoke w c)) = obj w"
  by (simp add: invoke_def run_body_obj split: option.split)



lemma invoke_shared:
  assumes "method_name c \<in> set shared_methods"
  shows "invoke w c = run_body MaterialModel c w"
  using resolve_shared [OF assms, of "cls (obj w)"] by (simp add: invoke_def)

lemma invoke_getBasicTensors:
  "invoke w (CallGetBasicTensors u) = (tensors_result (getBasicTensors (obj w) u), w)"
  by (simp add: invoke_def resolve_getBasicTensors)

lemma invoke_interiorResidual:
  "invoke w (CallInteriorResidual u v extra dx) =
     run_body (cls (obj w)) (CallInteriorResidual u v extra dx) w"
  by (simp add: invoke_def resolve_interiorResidual)

lemma invoke_StVenantKirchoff:
  assumes "cls (obj w) = StVenantKirchoff"
  shows "fst (invoke w (CallInteriorResidual u v None dx)) =
           form_result (StVenantKirchoff_interiorResidual (obj w) u v dx)"
  using assms by (simp add: invoke_interiorResidual)

lemma invoke_NeoHookean:
  assumes "cls (obj w) = NeoHookean"
  shows "fst (invoke w (CallInteriorResidual u v extra dx)) =
           form_result (fst (NeoHookean_interiorResidual (obj w) u v extra dx (count w)))"
  using assms by (simp add: invoke_interiorResidual split: prod.split)

lemma invoke_JacobianStiffening:
  assumes "cls (obj w) = JacobianStiffening"
  shows "fst (invoke w (CallInteriorResidual u v (Some J_M) dx)) =
           form_result
             (fst (JacobianStiffening_interiorResidual (obj w) u v J_M dx (count w)))"
  using assms by (simp add: invoke_interiorResidual split: prod.split)

lemma run_body_shared_rho:
  assumes "method_name c \<in> set shared_methods" and "rho (obj w1) = rho (obj w2)"
  shows "fst (run_body MaterialModel c w1) = fst (run_body MaterialModel c w2)"
  using assms
  by (cases c)
     (simp_all add: shared_methods_def accelerationResidual_def massDampingResidual_def
        bodyforceResidual_def tractionBCResidual_def penaltyWeakBCResidual_def)

lemma run_body_shared_Inr:
  assumes "method_name c \<in> set shared_methods"
  shows "\<exists>f. fst (run_body MaterialModel c w) = Inr (FormResult f)"
  using assms by (cases c) (simp_all add: shared_methods_def)

lemma run_body_shared_world:
  assumes "method_name c \<in> set shared_methods"
  shows "snd (run_body MaterialModel c w) = w"
  using assms by (cases c) (simp_all add: shared_methods_def)

lemma invoke_other_world:
  assumes "method_name c \<noteq> ''interiorResidual''"
  shows "snd (invoke w c) = w"
proof (cases c)
  case (CallInteriorResidual u v extra dx)
  with assms show ?thesis by simp
next
  case (CallGetBasicTensors u)
  then show ?thesis by (simp add: invoke_getBasicTensors)
qed (simp_all add: invoke_shared run_body_shared_world shared_methods_def)

lemma invoke_KeyError_interiorResidual:
  assumes "fst (invoke w c) = Inl (KeyError k)"
  shows "method_name c = ''interiorResidual''"
proof (cases c)
  case (CallInteriorResidual u v extra dx)
  then show ?thesis by simp
next
  case (CallGetBasicTensors u)
  with assms have "tensors_result (getBasicTensors (obj w) u) = Inl (KeyError k)"
    by (simp add: invoke_getBasicTensors)
  then have "getBasicTensors (obj w) u = Inl (KeyError k)"
    by (simp add: tensors_result_def split: sum.splits)
  from getBasicTensors_Inl [OF this] show ?thesis by simp
qed (use assms invoke_shared [of c w] run_body_shared_Inr [of c w]
     in \<open>auto simp: shared_methods_def\<close>)

section \<open>A missing property\<close>

lemma StVenantKirchoff_interiorResidual_KeyError:
  "vector_field n u \<Longrightarrow> props self ''kappa'' = None \<Longrightarrow>
     StVenantKirchoff_interiorResidual self u v dx = Inl (KeyError ''kappa'')"
  "vector_field n u \<Longrightarrow> props self ''kappa'' = Some x \<Longrightarrow> props self ''mu'' = None \<Longrightarrow>
     StVenantKirchoff_interiorResidual self u v dx = Inl (KeyError ''mu'')"
  by (simp_all add: StVenantKirchoff_interiorResidual_def StVenantKirchoff_S_def
      getBasicTensors_vector_field getitem_def)

lemma NeoHookean_interiorResidual_KeyError:
  "vector_field n u \<Longrightarrow> props self ''mu'' = None \<Longrightarrow>
     fst (NeoHookean_interiorResidual self u v S0 dx k) = Inl (KeyError ''mu'')"
  "vector_field n u \<Longrightarrow> props self ''mu'' = Some x \<Longrightarrow> props self ''kappa'' = None \<Longrightarrow>
     fst (NeoHookean_interiorResidual self u v S0 dx k) = Inl (KeyError ''kappa'')"
  by (simp_all add: NeoHookean_interiorResidual_def NeoHookean_S_def
      getBasicTensors_vector_field getitem_def Let_def split: option.split)

lemma JacobianStiffening_interiorResidual_KeyError:
  "vector_field n u \<Longrightarrow> props self ''power_J_M'' = None \<Longrightarrow>
     fst (JacobianStiffening_interiorResidual self u v J_M dx k) =
       Inl (KeyError ''power_J_M'')"
  by (simp add: JacobianStiffening_interiorResidual_def JacobianStiffening_S_def
      JacobianStiffening_K_def getBasicTensors_vector_field getitem_def Let_def)

lemma StVenantKirchoff_interiorResidual_missing:
  assumes "props self ''kappa'' = None \<or> props self ''mu'' = None"
  shows "\<exists>e. StVenantKirchoff_interiorResidual self u v dx = Inl e"
  using assms
  by (cases "getBasicTensors self u")
     (auto simp: StVenantKirchoff_interiorResidual_def StVenantKirchoff_S_def getitem_def
        split: option.split)

lemma NeoHookean_interiorResidual_missing:
  assumes "props self ''mu'' = None \<or> props self ''kappa'' = None"
  shows "\<exists>e. fst (NeoHookean_interiorResidual self u v S0 dx k) = Inl e"
  using assms
  by (cases "getBasicTensors self u")
     (auto simp: NeoHookean_interiorResidual_def NeoHookean_S_def getitem_def Let_def
        split: option.split)

lemma JacobianStiffening_interiorResidual_missing:
  assumes "props self ''power_J_M'' = None"
  shows "\<exists>e. fst (JacobianStiffening_interiorResidual self u v J_M dx k) = Inl e"
  using assms
  by (cases "getBasicTensors self u")
     (auto simp: JacobianStiffening_interiorResidual_def JacobianStiffening_S_def
        JacobianStiffening_K_def getitem_def Let_def)

lemma form_result_Inl: "r = Inl e \<Longrightarrow> form_result r = Inl e"
  by (simp add: form_result_def)

lemma invoke_interiorResidual_missing:
  assumes "cls m = StVenantKirchoff \<and> (props m ''kappa'' = None \<or> props m ''mu'' = None) \<or>
           cls m = NeoHookean \<and> (props m ''mu'' = None \<or> props m ''kappa'' = None) \<or>
           cls m = JacobianStiffening \<and> props m ''power_J_M'' = None"
  shows "\<exists>e. fst (invoke \<lparr>obj = m, count = k\<rparr> (CallInteriorResidual u v extra dx)) = Inl e"
proof -
  consider
      (svk) "cls m = StVenantKirchoff" "props m ''kappa'' = None \<or> props m ''mu'' = None"
    | (nh) "cls m = NeoHookean" "props m ''mu'' = None \<or> props m ''kappa'' = None"
    | (js) "cls m = JacobianStiffening" "props m ''power_J_M'' = None"
    using assms by argo
  then show ?thesis
  proof cases
    case svk
    from StVenantKirchoff_interiorResidual_missing [OF svk(2), of u v dx]
    obtain e where "StVenantKirchoff_interiorResidual m u v dx = Inl e" ..
    with svk(1) show ?thesis
      by (cases extra) (simp_all add: invoke_interiorResidual form_result_def)
  next
    case nh
    from NeoHookean_interiorResidual_missing [OF nh(2), of u v extra dx k]
    obtain e where "fst (NeoHookean_interiorResidual m u v extra dx k) = Inl e" ..
    with nh(1) show ?thesis
      by (cases "NeoHookean_interiorResidual m u v extra dx k")
         (simp add: invoke_interiorResidual form_result_def)
  next
    case js
    show ?thesis
    proof (cases extra)
      case None
      with js(1) show ?thesis by (simp add: invoke_interiorResidual)
    next
      case (Some J_M)
      from JacobianStiffening_interiorResidual_missing [OF js(2), of u v J_M dx k]
      obtain e where "fst (JacobianStiffening_interiorResidual m u v J_M dx k) = Inl e" ..
      with js(1) Some show ?thesis
        by (cases "JacobianStiffening_interiorResidual m u v J_M dx k")
           (simp add: invoke_interiorResidual form_result_def)
    qed
  qed
qed

section \<open>Results that do not depend on the count\<close>








lemma invoke_again_same:
  assumes "count (snd (invoke w c)) = count w"
  shows "invoke (snd (invoke w c)) c = invoke w c"
proof -
  have "snd (invoke w c) = w"
    using invoke_obj [of w c] assms by (cases w; cases "snd (invoke w c)") simp
  then show ?thesis by simp
qed

section \<open>Properties of instantiation and of method calls\<close>

text \<open>
  C5: instantiating the abstract base class \<^verbatim>\<open>MaterialModel\<close> fails at construction
  with an instantiation error (Python's \<^verbatim>\<open>TypeError\<close>), whatever the arguments, because
  \<^verbatim>\<open>interiorResidual\<close> is its one abstract method.
\<close>

theorem MaterialModel_not_instantiable:
  "abstractmethods MaterialModel = [''interiorResidual''] \<and>
   instantiate MaterialModel rho_arg kwargs = Inl TypeError"
  by (simp add: instantiate_def abstractmethods_MaterialModel)

theorem MaterialModel_not_instantiable_witness:
  "instantiate MaterialModel (Some (Constant 1 1)) [''kappa'' \<mapsto> Lit 2, ''mu'' \<mapsto> Lit 3]
     = Inl TypeError"
  using MaterialModel_not_instantiable
    [of "Some (Constant 1 1)" "[''kappa'' \<mapsto> Lit 2, ''mu'' \<mapsto> Lit 3]"]
  by simp

text \<open>
  C4: a law instantiated without a property its \<^verbatim>\<open>interiorResidual\<close> reads is
  instantiated all the same, with the keyword arguments stored as given. The call of
  \<^verbatim>\<open>interiorResidual\<close> on it, for a displacement \<open>u\<close> the kinematic tensors can be built
  from (\<open>n\<close> components on a domain of dimension \<open>n\<close>), then fails with the \<^verbatim>\<open>KeyError\<close> of
  the first missing key in the order the body reads them (\<^verbatim>\<open>kappa\<close> before \<^verbatim>\<open>mu\<close> for
  St. Venant-Kirchhoff, \<^verbatim>\<open>mu\<close> before \<^verbatim>\<open>kappa\<close> for Neo-Hookean, \<^verbatim>\<open>power_J_M\<close> for the
  stiffening law); where the second key is the missing one, the first is taken to be a
  scalar, so that the products formed with it before the second is read are built. No
  default value stands in for a missing property: whatever the displacement and the
  other arguments, the call ends with an error and returns no form.
\<close>

theorem missing_property_is_KeyError:
  assumes "c \<in> set concrete_laws" and "vector_field n u"
  shows "\<exists>m. instantiate c rho_arg kwargs = Inr m \<and> cls m = c \<and> props m = kwargs \<and>
     (c = StVenantKirchoff \<and> kwargs ''kappa'' = None \<longrightarrow>
        fst (invoke \<lparr>obj = m, count = k\<rparr> (CallInteriorResidual u v None dx)) =
          Inl (KeyError ''kappa'')) \<and>
     (c = StVenantKirchoff \<and> (\<exists>x. kwargs ''kappa'' = Some x \<and> ufl_shape x = []) \<and>
      kwargs ''mu'' = None \<longrightarrow>
        fst (invoke \<lparr>obj = m, count = k\<rparr> (CallInteriorResidual u v None dx)) =
          Inl (KeyError ''mu'')) \<and>
     (c = NeoHookean \<and> kwargs ''mu'' = None \<longrightarrow>
        fst (invoke \<lparr>obj = m, count = k\<rparr> (CallInteriorResidual u v S_init dx)) =
          Inl (KeyError ''mu'')) \<and>
     (c = NeoHookean \<and> (\<exists>x. kwargs ''mu'' = Some x \<and> ufl_shape x = []) \<and>
      kwargs ''kappa'' = None \<longrightarrow>
        fst (invoke \<lparr>obj = m, count = k\<rparr> (CallInteriorResidual u v S_init dx)) =
          Inl (KeyError ''kappa'')) \<and>
     (c = JacobianStiffening \<and> kwargs ''power_J_M'' = None \<longrightarrow>
        fst (invoke \<lparr>obj = m, count = k\<rparr> (CallInteriorResidual u v (Some J_M) dx)) =
          Inl (KeyError ''power_J_M'')) \<and>
     (c = StVenantKirchoff \<and> (kwargs ''kappa'' = None \<or> kwargs ''mu'' = None) \<or>
      c = NeoHookean \<and> (kwargs ''mu'' = None \<or> kwargs ''kappa'' = None) \<or>
      c = JacobianStiffening \<and> kwargs ''power_J_M'' = None \<longrightarrow>
        (\<forall>u' v' extra dx'. \<exists>e.
           fst (invoke \<lparr>obj = m, count = k\<rparr> (CallInteriorResidual u' v' extra dx')) = Inl e))"
proof -
  let ?m = "MaterialModel_init c rho_arg kwargs"
  let ?w = "\<lparr>obj = ?m, count = k\<rparr>"
  note m = MaterialModel_init_sel
  note u = assms(2)
  have "instantiate c rho_arg kwargs = Inr ?m"
    by (rule instantiate_concrete [OF assms(1)])
  moreover have "c = StVenantKirchoff \<and> kwargs ''kappa'' = None \<longrightarrow>
      fst (invoke ?w (CallInteriorResidual u v None dx)) = Inl (KeyError ''kappa'')"
    by (simp add: invoke_StVenantKirchoff form_result_def m
        StVenantKirchoff_interiorResidual_KeyError(1) [OF u])
  moreover have "c = StVenantKirchoff \<and> (\<exists>x. kwargs ''kappa'' = Some x \<and> ufl_shape x = []) \<and>
      kwargs ''mu'' = None \<longrightarrow>
      fst (invoke ?w (CallInteriorResidual u v None dx)) = Inl (KeyError ''mu'')"
    by (auto simp: invoke_StVenantKirchoff form_result_def m
        StVenantKirchoff_interiorResidual_KeyError(2) [OF u])
  moreover have "c = NeoHookean \<and> kwargs ''mu'' = None \<longrightarrow>
      fst (invoke ?w (CallInteriorResidual u v S_init dx)) = Inl (KeyError ''mu'')"
    by (simp add: invoke_NeoHookean form_result_def m
        NeoHookean_interiorResidual_KeyError(1) [OF u])
  moreover have "c = NeoHookean \<and> (\<exists>x. kwargs ''mu'' = Some x \<and> ufl_shape x = []) \<and>
      kwargs ''kappa'' = None \<longrightarrow>
      fst (invoke ?w (CallInteriorResidual u v S_init dx)) = Inl (KeyError ''kappa'')"
    by (auto simp: invoke_NeoHookean form_result_def m
        NeoHookean_interiorResidual_KeyError(2) [OF u])
  moreover have "c = JacobianStiffening \<and> kwargs ''power_J_M'' = None \<longrightarrow>
      fst (invoke ?w (CallInteriorResidual u v (Some J_M) dx)) = Inl (KeyError ''power_J_M'')"
    by (simp add: invoke_JacobianStiffening form_result_def m
        JacobianStiffening_interiorResidual_KeyError [OF u])
  moreover have "c = StVenantKirchoff \<and> (kwargs ''kappa'' = None \<or> kwargs ''mu'' = None) \<or>
      c = NeoHookean \<and> (kwargs ''mu'' = None \<or> kwargs ''kappa'' = None) \<or>
      c = JacobianStiffening \<and> kwargs ''power_J_M'' = None \<longrightarrow>
        (\<forall>u' v' extra dx'. \<exists>e.
           fst (invoke ?w (CallInteriorResidual u' v' extra dx')) = Inl e)"
    using invoke_interiorResidual_missing [of ?m k] by (simp add: m)
  ultimately show ?thesis using m by (intro exI [of _ ?m]) simp
qed

theorem missing_property_is_KeyError_witness:
  "\<exists>m. instantiate StVenantKirchoff None [''kappa'' \<mapsto> Lit 1] = Inr m \<and>
       fst (invoke \<lparr>obj = m, count = 1\<rparr>
              (CallInteriorResidual (Coefficient ''u'' [2] 2) (Coefficient ''v'' [2] 2)
                 None (Measure ''dx'' 0))) = Inl (KeyError ''mu'')"
  using missing_property_is_KeyError
    [where c = StVenantKirchoff and rho_arg = None and kwargs = "[''kappa'' \<mapsto> Lit 1]"
       and u = "Coefficient ''u'' [2] 2" and n = 2 and v = "Coefficient ''v'' [2] 2"
       and dx = "Measure ''dx'' 0" and k = 1]
  by (simp add: concrete_laws_def vector_field_def) blast

text \<open>
  C10: the five shared residual methods never read the properties. Called with the same
  arguments on two instances of equal density they return the same result, whatever the
  properties of either; replacing the properties of an instance changes nothing; with
  no properties at all they still return a form; and a call that fails with a
  \<^verbatim>\<open>KeyError\<close> is a call of \<^verbatim>\<open>interiorResidual\<close>.
\<close>

theorem shared_methods_ignore_props:
  assumes "method_name c \<in> set shared_methods"
  shows "(rho m1 = rho m2 \<longrightarrow>
            fst (invoke \<lparr>obj = m1, count = k1\<rparr> c) = fst (invoke \<lparr>obj = m2, count = k2\<rparr> c)) \<and>
         fst (invoke \<lparr>obj = m1\<lparr>props := p\<rparr>, count = k1\<rparr> c) =
           fst (invoke \<lparr>obj = m1, count = k1\<rparr> c) \<and>
         (\<exists>f. fst (invoke \<lparr>obj = m1\<lparr>props := Map.empty\<rparr>, count = k1\<rparr> c) =
                 Inr (FormResult f)) \<and>
         (\<forall>c' k. fst (invoke \<lparr>obj = m1, count = k1\<rparr> c') = Inl (KeyError k) \<longrightarrow>
            method_name c' = ''interiorResidual'')"
proof -
  have "rho m1 = rho m2 \<longrightarrow>
      fst (invoke \<lparr>obj = m1, count = k1\<rparr> c) = fst (invoke \<lparr>obj = m2, count = k2\<rparr> c)"
    using run_body_shared_rho [OF assms, of "\<lparr>obj = m1, count = k1\<rparr>" "\<lparr>obj = m2, count = k2\<rparr>"]
    by (simp add: invoke_shared [OF assms])
  moreover have "fst (invoke \<lparr>obj = m1\<lparr>props := p\<rparr>, count = k1\<rparr> c) =
      fst (invoke \<lparr>obj = m1, count = k1\<rparr> c)"
    using run_body_shared_rho
      [OF assms, of "\<lparr>obj = m1\<lparr>props := p\<rparr>, count = k1\<rparr>" "\<lparr>obj = m1, count = k1\<rparr>"]
    by (simp add: invoke_shared [OF assms])
  moreover have "\<exists>f. fst (invoke \<lparr>obj = m1\<lparr>props := Map.empty\<rparr>, count = k1\<rparr> c) =
      Inr (FormResult f)"
    using run_body_shared_Inr [OF assms] by (simp add: invoke_shared [OF assms])
  ultimately show ?thesis
    using invoke_KeyError_interiorResidual [of "\<lparr>obj = m1, count = k1\<rparr>"] by blast
qed

theorem shared_methods_ignore_props_witness:
  "fst (invoke \<lparr>obj = \<lparr>cls = NeoHookean, rho = Constant 1 2, props = Map.empty\<rparr>, count = 2\<rparr>
          (CallBodyforceResidual (Coefficient ''f'' [2] 2) (Coefficient ''v'' [2] 2)
             (Measure ''dx'' 0))) =
   fst (invoke \<lparr>obj = \<lparr>cls = NeoHookean, rho = Constant 1 2, props = [''kappa'' \<mapsto> Lit 1]\<rparr>,
                count = 5\<rparr>
          (CallBodyforceResidual (Coefficient ''f'' [2] 2) (Coefficient ''v'' [2] 2)
             (Measure ''dx'' 0)))"
  using shared_methods_ignore_props
    [where c = "CallBodyforceResidual (Coefficient ''f'' [2] 2) (Coefficient ''v'' [2] 2)
           (Measure ''dx'' 0)"
       and ?m1.0 = "\<lparr>cls = NeoHookean, rho = Constant 1 2, props = Map.empty\<rparr>"
       and ?m2.0 = "\<lparr>cls = NeoHookean, rho = Constant 1 2, props = [''kappa'' \<mapsto> Lit 1]\<rparr>"
       and ?k1.0 = 2 and ?k2.0 = 5]
  by (simp add: shared_methods_def)

section \<open>Matrices\<close>

subsection \<open>The identity and the zero matrix\<close>

lemma length_identity_mat [simp]: "length (identity_mat n) = n"
  by (simp add: identity_mat_def)

lemma nth_identity_mat:
  "i < n \<Longrightarrow> identity_mat n ! i = map (\<lambda>j. if i = j then 1 else 0) [0..<n]"
  by (simp add: identity_mat_def)

lemma nth_nth_identity_mat:
  "i < n \<Longrightarrow> j < n \<Longrightarrow> identity_mat n ! i ! j = (if i = j then 1 else 0)"
  by (simp add: identity_mat_def)

lemma map_length_identity_mat [simp]: "map length (identity_mat n) = replicate n n"
  by (simp add: identity_mat_def comp_def map_replicate_const)

lemma length_zero_mat [simp]: "length (zero_mat n) = n"
  by (simp add: zero_mat_def)

lemma map_length_zero_mat [simp]: "map length (zero_mat n) = replicate n n"
  by (simp add: zero_mat_def)

lemma nth_zero_mat: "i < n \<Longrightarrow> zero_mat n ! i = replicate n 0"
  by (simp add: zero_mat_def)

lemma square_shape:
  assumes "map length A = replicate n n"
  shows "length A = n" and "\<And>i. i < n \<Longrightarrow> length (A ! i) = n"
proof -
  show n: "length A = n"
    using arg_cong [OF assms, of length] by simp
  fix i assume "i < n"
  then show "length (A ! i) = n"
    using arg_cong [OF assms, of "\<lambda>xs. xs ! i"] n by simp
qed

lemma is_square_shape: "map length A = replicate n n \<Longrightarrow> is_square A"
  using square_shape [of A n] by (simp add: is_square_def list_all_length)

lemma ncols_shape: "map length A = replicate n n \<Longrightarrow> ncols A = n"
  using square_shape [of A n] by (cases A) (auto simp: ncols_def)

lemma rectangular_shape: "map length A = replicate n n \<Longrightarrow> rectangular A"
  using square_shape [of A n] ncols_shape [of A n]
  by (simp add: rectangular_def list_all_length)

lemma list_all_length_square:
  "map length A = replicate n n \<Longrightarrow> list_all (\<lambda>r. length r = n) A"
  using square_shape [of A n] by (simp add: list_all_length)

lemma is_square_identity_mat: "is_square (identity_mat n)"
  by (rule is_square_shape [of _ n]) simp

lemma is_square_zero_mat: "is_square (zero_mat n)"
  by (rule is_square_shape [of _ n]) simp

lemma rectangular_identity_mat: "rectangular (identity_mat n)"
  by (rule rectangular_shape [of _ n]) simp

lemma rectangular_zero_mat: "rectangular (zero_mat n)"
  by (rule rectangular_shape [of _ n]) simp

lemma list_all_identity_mat: "list_all (\<lambda>r. length r = n) (identity_mat n)"
  by (rule list_all_length_square) simp

lemma list_all_zero_mat: "list_all (\<lambda>r. length r = n) (zero_mat n)"
  by (rule list_all_length_square) simp

lemma add_zero_mat_left:
  assumes "map length A = replicate n n"
  shows "map2 (map2 (+)) (zero_mat n) A = A"
proof (rule nth_equalityI)
  show "length (map2 (map2 (+)) (zero_mat n) A) = length A"
    using square_shape(1) [OF assms] by simp
next
  fix i assume "i < length (map2 (map2 (+)) (zero_mat n) A)"
  then have i: "i < n" by simp
  have l: "length (A ! i) = n" "length A = n"
    using square_shape [OF assms] i by simp_all
  have "map2 (+) (replicate n 0) (A ! i) = A ! i"
    by (rule nth_equalityI) (simp_all add: l)
  then show "map2 (map2 (+)) (zero_mat n) A ! i = A ! i"
    using i l by (simp add: nth_zero_mat)
qed

lemma sub_mat_self:
  assumes "map length A = replicate n n"
  shows "map2 (map2 (-)) A A = zero_mat n"
proof (rule nth_equalityI)
  show "length (map2 (map2 (-)) A A) = length (zero_mat n)"
    using square_shape(1) [OF assms] by simp
next
  fix i assume "i < length (map2 (map2 (-)) A A)"
  then have i: "i < n" using square_shape(1) [OF assms] by simp
  have l: "length (A ! i) = n" "length A = n"
    using square_shape [OF assms] i by simp_all
  have "map2 (-) (A ! i) (A ! i) = replicate n 0"
    by (rule nth_equalityI) (simp_all add: l)
  then show "map2 (map2 (-)) A A ! i = zero_mat n ! i"
    using i l by (simp add: nth_zero_mat)
qed

lemma scale_zero_mat: "map (map (\<lambda>x. c * x)) (zero_mat n) = zero_mat n"
  by (simp add: zero_mat_def)

lemma scale_zero_mat_right: "map (map (\<lambda>x. x * c)) (zero_mat n) = zero_mat n"
  by (simp add: zero_mat_def)

lemma div_zero_mat: "map (map (\<lambda>x. x / c)) (zero_mat n) = zero_mat n"
  by (simp add: zero_mat_def)

lemma scale_by_zero:
  assumes "map length A = replicate n n"
  shows "map (map (\<lambda>x. 0 * x)) A = zero_mat n"
proof (rule nth_equalityI)
  show "length (map (map (\<lambda>x. 0 * x)) A) = length (zero_mat n)"
    using square_shape(1) [OF assms] by simp
next
  fix i assume "i < length (map (map (\<lambda>x. 0 * x)) A)"
  then have i: "i < n" using square_shape(1) [OF assms] by simp
  have l: "length (A ! i) = n" "length A = n"
    using square_shape [OF assms] i by simp_all
  have "map (\<lambda>x. 0 * x) (A ! i) = replicate n 0"
    by (rule nth_equalityI) (simp_all add: l)
  then show "map (map (\<lambda>x. 0 * x)) A ! i = zero_mat n ! i"
    using i l by (simp add: nth_zero_mat)
qed

lemma scale_by_one: "map (map (\<lambda>x. 1 * x)) (A :: real list list) = A"
  by (simp add: map_idI)

lemma scale_identity_by_zero: "map (map (\<lambda>x. 0 * x)) (identity_mat n) = zero_mat n"
  by (rule scale_by_zero) simp

lemma trace_zero_mat: "trace (zero_mat n) = 0"
proof -
  have "map (\<lambda>i. zero_mat n ! i ! i) [0..<n] = map (\<lambda>i. 0) [0..<n]"
    by (rule map_cong) (simp_all add: nth_zero_mat)
  then have "trace (zero_mat n) = sum_list (map (\<lambda>i. 0) [0..<n])"
    unfolding trace_def length_zero_mat by (rule arg_cong)
  then show ?thesis by simp
qed

lemma trace_identity_mat: "trace (identity_mat n) = real n"
proof -
  have "map (\<lambda>i. identity_mat n ! i ! i) [0..<n] = map (\<lambda>i. 1) [0..<n]"
    by (rule map_cong) (simp_all add: nth_nth_identity_mat)
  then have "trace (identity_mat n) = sum_list (map (\<lambda>i. 1) [0..<n])"
    unfolding trace_def length_identity_mat by (rule arg_cong)
  then show ?thesis by (simp add: map_replicate_const sum_list_replicate)
qed

lemma dot_zero_left: "dot (replicate n 0) y = 0"
  by (simp add: dot_def zip_replicate1 comp_def)

lemma dot_zero_right: "dot x (replicate n 0) = 0"
  by (simp add: dot_def zip_replicate2 comp_def)

lemma mat_transpose_zero_mat: "mat_transpose (zero_mat n) = zero_mat n"
proof -
  have nc: "ncols (zero_mat n) = n"
    by (rule ncols_shape) simp
  have "map (\<lambda>j. map (\<lambda>r. r ! j) (zero_mat n)) [0..<n] = map (\<lambda>j. replicate n 0) [0..<n]"
    by (rule map_cong) (simp_all add: zero_mat_def)
  also have "\<dots> = zero_mat n"
    by (simp add: zero_mat_def map_replicate_const)
  finally show ?thesis
    unfolding mat_transpose_def nc .
qed

lemma mat_mul_zero_mat: "length A = n \<Longrightarrow> mat_mul A (zero_mat n) = zero_mat n"
proof -
  assume n: "length A = n"
  have "map (\<lambda>r. map (dot r) (zero_mat n)) A = map (\<lambda>r. replicate n 0) A"
    by (simp add: dot_zero_right zero_mat_def)
  also have "\<dots> = zero_mat n"
    using n by (simp add: zero_mat_def map_replicate_const)
  finally show ?thesis
    unfolding mat_mul_def mat_transpose_zero_mat .
qed

lemma mat_transpose_identity_mat: "mat_transpose (identity_mat n) = identity_mat n"
proof -
  have nc: "ncols (identity_mat n) = n"
    by (rule ncols_shape) simp
  have "map (\<lambda>j. map (\<lambda>r. r ! j) (identity_mat n)) [0..<n] =
        map (\<lambda>j. map (\<lambda>i. if j = i then 1 else 0) [0..<n]) [0..<n]"
    by (rule map_cong) (auto simp: identity_mat_def)
  then show ?thesis
    by (simp add: mat_transpose_def nc) (simp add: identity_mat_def)
qed

lemma dot_identity_rows:
  assumes "i < n" "j < n"
  shows "dot (identity_mat n ! i) (identity_mat n ! j) = (if i = j then 1 else 0)"
proof -
  have "dot (identity_mat n ! i) (identity_mat n ! j) =
        sum_list (map (\<lambda>k. (if i = k then 1 else 0) * (if j = k then 1 else 0)) [0..<n])"
    using assms by (simp add: dot_def nth_identity_mat map2_map_map)
  also have "\<dots> = (\<Sum>k\<in>{0..<n}. (if i = k then 1 else 0) * (if j = k then 1 else 0))"
    by (simp add: interv_sum_list_conv_sum_set_nat)
  also have "\<dots> = (\<Sum>k\<in>{0..<n}. if k = i then (if j = i then 1 else 0) else 0)"
    by (rule sum.cong) auto
  also have "\<dots> = (if i = j then 1 else 0)"
    using assms by (simp add: sum.delta)
  finally show ?thesis .
qed

lemma mat_mul_identity_mat: "mat_mul (identity_mat n) (identity_mat n) = identity_mat n"
proof (rule nth_equalityI)
  show "length (mat_mul (identity_mat n) (identity_mat n)) = length (identity_mat n)"
    by (simp add: mat_mul_def)
next
  fix i assume "i < length (mat_mul (identity_mat n) (identity_mat n))"
  then have i: "i < n" by (simp add: mat_mul_def)
  have "map (dot (identity_mat n ! i)) (identity_mat n) = identity_mat n ! i"
  proof (rule nth_equalityI)
    show "length (map (dot (identity_mat n ! i)) (identity_mat n)) = length (identity_mat n ! i)"
      using i by (simp add: nth_identity_mat)
  next
    fix j assume "j < length (map (dot (identity_mat n ! i)) (identity_mat n))"
    then have j: "j < n" by simp
    show "map (dot (identity_mat n ! i)) (identity_mat n) ! j = identity_mat n ! i ! j"
      using i j by (simp add: dot_identity_rows nth_nth_identity_mat)
  qed
  then show "mat_mul (identity_mat n) (identity_mat n) ! i = identity_mat n ! i"
    using i by (simp add: mat_mul_def mat_transpose_identity_mat)
qed

lemma inner_zero_mat_left: "sum_list (map2 dot (zero_mat n) G) = 0"
proof -
  have "map2 dot (zero_mat n) G = map (\<lambda>g. 0) (take n G)"
    by (simp add: zero_mat_def zip_replicate1 dot_zero_left)
  then show ?thesis by simp
qed

subsection \<open>Determinant and inverse of the identity\<close>

lemma upt_Suc_shift: "[0..<Suc n] = 0 # map Suc [0..<n]"
  by (simp add: upt_conv_Cons map_Suc_upt del: upt_Suc)

lemma identity_mat_Suc:
  "identity_mat (Suc n) = (1 # replicate n 0) # map ((#) 0) (identity_mat n)"
proof -
  have "identity_mat (Suc n) =
        map (\<lambda>i. map (\<lambda>j. if i = j then 1 else 0) (0 # map Suc [0..<n])) (0 # map Suc [0..<n])"
    unfolding identity_mat_def upt_Suc_shift ..
  also have "\<dots> = (1 # replicate n 0) # map ((#) 0) (identity_mat n)"
    by (simp add: identity_mat_def comp_def map_replicate_const)
  finally show ?thesis .
qed

lemma del_0_Cons [simp]: "del 0 (x # xs) = xs"
  by (simp add: del_def)

lemma det_identity_mat: "det (identity_mat n) = 1"
proof (induction n)
  case 0
  show ?case by (simp add: identity_mat_def)
next
  case (Suc n)
  have tail: "map (\<lambda>j. (- 1) ^ Suc j * (1 # replicate n (0::real)) ! Suc j *
                  det (map (del (Suc j)) (map ((#) 0) (identity_mat n)))) [0..<n]
              = map (\<lambda>j. 0) [0..<n]"
    by (rule map_cong) simp_all
  have "det (identity_mat (Suc n)) =
        sum_list (map (\<lambda>j. (- 1) ^ j * (1 # replicate n 0) ! j *
                    det (map (del j) (map ((#) 0) (identity_mat n)))) (0 # map Suc [0..<n]))"
    unfolding identity_mat_Suc det.simps by (simp only: length_Cons length_replicate upt_Suc_shift)
  also have "\<dots> = det (map (del 0) (map ((#) 0) (identity_mat n))) +
        sum_list (map (\<lambda>j. (- 1) ^ Suc j * (1 # replicate n (0::real)) ! Suc j *
                  det (map (del (Suc j)) (map ((#) 0) (identity_mat n)))) [0..<n])"
    by (simp add: comp_def)
  also have "\<dots> = det (identity_mat n)"
    unfolding tail by (simp add: comp_def)
  finally show ?case using Suc by simp
qed

lemma set_del_subset: "set (del k xs) \<subseteq> set xs"
  by (auto simp: del_def dest: in_set_takeD in_set_dropD)

lemma det_zero_row:
  "\<exists>z \<in> set A. \<forall>x \<in> set z. x = 0 \<Longrightarrow> det A = 0"
proof (induction A rule: det.induct)
  case 1
  then show ?case by simp
next
  case (2 r rs)
  have "map (\<lambda>j. (- 1) ^ j * r ! j * det (map (del j) rs)) [0..<length r]
        = map (\<lambda>j. 0) [0..<length r]"
  proof (rule map_cong [OF refl])
    fix j assume j: "j \<in> set [0..<length r]"
    show "(- 1) ^ j * r ! j * det (map (del j) rs) = 0"
    proof (cases "\<forall>x \<in> set r. x = 0")
      case True
      then have "r ! j = 0" using j by simp
      then show ?thesis by simp
    next
      case False
      with "2.prems" obtain z where z: "z \<in> set rs" "\<forall>x \<in> set z. x = 0" by auto
      have "del j z \<in> set (map (del j) rs)" using z(1) by simp
      moreover have "\<forall>x \<in> set (del j z). x = 0"
        using z(2) set_del_subset [of j z] by blast
      ultimately have "det (map (del j) rs) = 0"
        using "2.IH" [OF j] by blast
      then show ?thesis by simp
    qed
  qed
  then show ?case by (simp only: det.simps sum_list_0)
qed

lemma del_map: "del k (map f xs) = map f (del k xs)"
  by (simp add: del_def take_map drop_map)

lemma del_upt: "k < n \<Longrightarrow> del k [0..<n] = map (\<lambda>a. if a < k then a else Suc a) [0..<n - 1]"
proof (rule nth_equalityI)
  assume k: "k < n"
  show "length (del k [0..<n]) = length (map (\<lambda>a. if a < k then a else Suc a) [0..<n - 1])"
    using k by (simp add: del_def)
next
  fix i assume k: "k < n" and "i < length (del k [0..<n])"
  then have i: "i < n - 1" by (simp add: del_def)
  show "del k [0..<n] ! i = map (\<lambda>a. if a < k then a else Suc a) [0..<n - 1] ! i"
    using i k by (auto simp: del_def nth_append)
qed

lemma minor_identity_diag:
  assumes "k < n"
  shows "minor k k (identity_mat n) = identity_mat (n - 1)"
proof -
  let ?s = "\<lambda>a. if a < k then a else Suc a"
  have "minor k k (identity_mat n) =
        map (\<lambda>i. map (\<lambda>j. if i = j then 1 else 0) (del k [0..<n])) (del k [0..<n])"
    by (simp add: minor_def identity_mat_def del_map comp_def)
  also have "\<dots> = map (\<lambda>i. map (\<lambda>j. if ?s i = ?s j then 1 else 0) [0..<n - 1]) [0..<n - 1]"
    unfolding del_upt [OF assms] by (simp add: comp_def)
  also have "\<dots> = map (\<lambda>i. map (\<lambda>j. if i = j then 1 else 0) [0..<n - 1]) [0..<n - 1]"
    by (intro map_cong refl) auto
  finally show ?thesis by (simp add: identity_mat_def)
qed

lemma nth_in_set_del:
  assumes "i < length xs" "i \<noteq> k"
  shows "xs ! i \<in> set (del k xs)"
proof (cases "i < k")
  case True
  then have "xs ! i = take k xs ! i" by simp
  moreover have "i < length (take k xs)" using True assms by simp
  ultimately have "xs ! i \<in> set (take k xs)" by (metis nth_mem)
  then show ?thesis by (simp add: del_def)
next
  case False
  with assms have "Suc k \<le> i" by simp
  then have "xs ! i \<in> set (drop (Suc k) xs)"
    using assms(1) by (auto simp: in_set_conv_nth intro!: exI [of _ "i - Suc k"])
  then show ?thesis by (simp add: del_def)
qed

lemma det_minor_identity_off:
  assumes "i < n" "j < n" "i \<noteq> j"
  shows "det (minor j i (identity_mat n)) = 0"
proof (rule det_zero_row)
  let ?z = "del i (identity_mat n ! i)"
  have "identity_mat n ! i \<in> set (del j (identity_mat n))"
    using assms by (intro nth_in_set_del) simp_all
  then have "?z \<in> set (minor j i (identity_mat n))"
    by (simp add: minor_def)
  moreover have "\<forall>x \<in> set ?z. x = 0"
    using assms(1) by (auto simp: nth_identity_mat del_map del_upt)
  ultimately show "\<exists>z \<in> set (minor j i (identity_mat n)). \<forall>x \<in> set z. x = 0" by blast
qed

lemma mat_inv_identity_mat: "mat_inv (identity_mat n) = identity_mat n"
proof -
  have "map (\<lambda>i. map (\<lambda>j. (- 1) ^ (i + j) * det (minor j i (identity_mat n)) / det (identity_mat n)) [0..<n]) [0..<n]
      = map (\<lambda>i. map (\<lambda>j. if i = j then 1 else 0) [0..<n]) [0..<n]"
  proof (intro map_cong refl)
    fix i j assume "i \<in> set [0..<n]" "j \<in> set [0..<n]"
    then have ij: "i < n" "j < n" by simp_all
    show "(- 1) ^ (i + j) * det (minor j i (identity_mat n)) / det (identity_mat n)
          = (if i = j then 1 else 0)"
    proof (cases "i = j")
      case True
      then show ?thesis
        using ij by (simp add: minor_identity_diag det_identity_mat)
    next
      case False
      then show ?thesis
        using ij by (simp add: det_minor_identity_off)
    qed
  qed
  then show ?thesis
    unfolding mat_inv_def length_identity_mat identity_mat_def [symmetric]
    by (simp add: identity_mat_def)
qed

subsection \<open>Shapes, and matrices given by their entries\<close>


lemma shape_map: "map length (map (map f) A) = map length A"
  by simp




lemma shape_mat_of [simp]: "map length (mat_of n f) = replicate n n"
  by (simp add: mat_of_def comp_def map_replicate_const)


lemma is_square_mat_of [simp]: "is_square (mat_of n f)"
  by (rule is_square_shape [of _ n]) simp







section \<open>Values\<close>

lemma dot_commute: "dot x y = dot y x"
proof (induction x arbitrary: y)
  case Nil
  show ?case by (simp add: dot_def)
next
  case (Cons a x)
  then show ?case by (cases y) (simp_all add: dot_def)
qed

lemma dot_neg_left: "dot (map uminus x) y = - dot x y"
proof (induction x arbitrary: y)
  case Nil
  show ?case by (simp add: dot_def)
next
  case (Cons a x)
  then show ?case by (cases y) (simp_all add: dot_def)
qed

lemma sum_map2_dot_commute: "sum_list (map2 dot A B) = sum_list (map2 dot B A)"
proof (induction A arbitrary: B)
  case Nil
  show ?case by simp
next
  case (Cons a A)
  then show ?case by (cases B) (simp_all add: dot_commute)
qed

lemma val_inner_commute: "val_inner a b = val_inner b a"
  by (cases a; cases b) (auto simp: dot_commute sum_map2_dot_commute mult.commute)

lemma eval_Inner_commute: "eval \<rho> (Inner a b) = eval \<rho> (Inner b a)"
  by (simp add: bind2_def val_inner_commute split: option.split)

lemma val_map_comp: "val_map f (val_map g a) = val_map (\<lambda>x. f (g x)) a"
  by (cases a) (simp_all add: comp_def)

lemma val_mul_neg_left:
  "val_mul (val_map uminus a) b = map_option (val_map uminus) (val_mul a b)"
proof (cases a)
  case (Sc x)
  then show ?thesis by (cases b) simp_all
next
  case (Vec x)
  then show ?thesis by (cases b) (simp_all add: comp_def)
next
  case (Mat A)
  show ?thesis
  proof (cases b)
    case (Sc y)
    with Mat show ?thesis by (simp add: comp_def)
  next
    case (Vec y)
    with Mat show ?thesis
      by (simp add: list.pred_map comp_def mat_vec_def dot_neg_left)
  next
    case (Mat B)
    with \<open>a = Mat A\<close> show ?thesis
      by (simp add: list.pred_map comp_def mat_mul_def dot_neg_left)
  qed
qed

lemma eval_Mul_Neg_left: "eval \<rho> (Mul (Neg a) b) = eval \<rho> (Neg (Mul a b))"
  by (cases "eval \<rho> a"; cases "eval \<rho> b") (simp_all add: bind2_def val_mul_neg_left)

lemma bind2_Some [simp]: "bind2 (Some a) (Some b) f = f a b"
  by (simp add: bind2_def)

text \<open>
  The operations on the identity and the zero matrix, as rewrite rules; \<open>val_defs\<close> are
  the defining equations they replace.
\<close>

lemma val_Sc_Sc:
  "val_zip f (Sc a) (Sc b) = Some (Sc (f a b))"
  "val_mul (Sc a) (Sc b) = Some (Sc (a * b))"
  "val_div (Sc a) (Sc b) = (if b = 0 then None else Some (Sc (a / b)))"
  "val_pow (Sc a) (Sc b) = map_option Sc (real_pow a b)"
  "val_inner (Sc a) (Sc b) = Some (Sc (a * b))"
  by simp_all

lemma val_add_zero_left:
  "val_zip (+) (Mat (zero_mat n)) (Mat (identity_mat n)) = Some (Mat (identity_mat n))"
  "val_zip (+) (Mat (zero_mat n)) (Mat (zero_mat n)) = Some (Mat (zero_mat n))"
  by (simp_all only: val_zip.simps map_length_zero_mat map_length_identity_mat if_True
      add_zero_mat_left simp_thms)

lemma val_sub_self:
  "val_zip (-) (Mat (identity_mat n)) (Mat (identity_mat n)) = Some (Mat (zero_mat n))"
  "val_zip (-) (Mat (zero_mat n)) (Mat (zero_mat n)) = Some (Mat (zero_mat n))"
  by (simp_all only: val_zip.simps map_length_zero_mat map_length_identity_mat if_True
      sub_mat_self simp_thms)

lemma val_scale_zero_mat: "val_mul (Sc c) (Mat (zero_mat n)) = Some (Mat (zero_mat n))"
  by (simp only: val_mul.simps val_map.simps scale_zero_mat)

lemma val_scale_identity:
  "val_mul (Sc 0) (Mat (identity_mat n)) = Some (Mat (zero_mat n))"
  "val_mul (Sc 1) (Mat (identity_mat n)) = Some (Mat (identity_mat n))"
  by (simp_all only: val_mul.simps val_map.simps scale_identity_by_zero scale_by_one)

lemma val_div_zero_mat:
  "c \<noteq> 0 \<Longrightarrow> val_div (Mat (zero_mat n)) (Sc c) = Some (Mat (zero_mat n))"
  by (simp only: val_div.simps val_map.simps div_zero_mat if_False)

lemma val_mul_identity:
  "val_mul (Mat (identity_mat n)) (Mat (identity_mat n)) = Some (Mat (identity_mat n))"
  "val_mul (Mat (identity_mat n)) (Mat (zero_mat n)) = Some (Mat (zero_mat n))"
  by (simp_all only: val_mul.simps length_identity_mat length_zero_mat list_all_identity_mat
      rectangular_identity_mat rectangular_zero_mat simp_thms if_True mat_mul_identity_mat
      mat_mul_zero_mat)

lemma val_tr_canonical:
  "val_tr (Mat (zero_mat n)) = Some (Sc 0)"
  "val_tr (Mat (identity_mat n)) = Some (Sc (real n))"
  by (simp_all only: val_tr.simps is_square_zero_mat is_square_identity_mat if_True
      trace_zero_mat trace_identity_mat)

lemma val_det_identity: "val_det (Mat (identity_mat n)) = Some (Sc 1)"
  by (simp only: val_det.simps is_square_identity_mat if_True det_identity_mat)

lemma val_inv_identity:
  "val_inv (Mat (identity_mat n)) = Some (Mat (identity_mat n))"
  by (simp add: is_square_identity_mat det_identity_mat mat_inv_identity_mat)

lemma val_transpose_identity:
  "val_transpose (Mat (identity_mat n)) = Some (Mat (identity_mat n))"
  by (simp only: val_transpose.simps rectangular_identity_mat if_True mat_transpose_identity_mat)

lemma val_inner_zero_mat:
  "map length G = replicate n n \<Longrightarrow> val_inner (Mat (zero_mat n)) (Mat G) = Some (Sc 0)"
  by (simp only: val_inner.simps map_length_zero_mat inner_zero_mat_left if_True simp_thms)

lemma real_pow_one: "real_pow 1 b = Some 1"
  by (simp add: real_pow_def)

lemmas val_simps = val_Sc_Sc val_add_zero_left val_sub_self val_scale_zero_mat
  val_scale_identity val_div_zero_mat val_mul_identity val_tr_canonical val_det_identity
  val_inv_identity val_transpose_identity val_inner_zero_mat real_pow_one

lemmas val_defs = val_zip.simps(3) val_mul.simps(1,3,4,5) val_div.simps(1) val_inner.simps(3)
  val_det.simps(1) val_tr.simps(1) val_inv.simps(1) val_transpose.simps(1)


section \<open>The shared residual contributions\<close>

text \<open>
  C3: the five shared residual methods are the same for the three laws. No law declares
  any of them, so each resolves to the body in \<^verbatim>\<open>MaterialModel\<close>; called with the same
  arguments on instances of equal density, whatever their laws, each returns the same
  result; and the forms are those of the specification: the acceleration, damping and
  penalty forms term for term, the body-force and traction forms with the same measure
  and the same integrand value at every point (the code negates the density where
  the specification negates the product, and writes \<^verbatim>\<open>inner(v,h)\<close> where the
  specification writes the traction first).
\<close>

theorem shared_residuals_same_for_all_laws:
  "(c \<in> set concrete_laws \<and> m \<in> set shared_methods \<longrightarrow>
      m \<notin> set (map fst (declares c)) \<and> resolve c m = Some MaterialModel) \<and>
   (method_name call \<in> set shared_methods \<and> rho m1 = rho m2 \<longrightarrow>
      fst (invoke \<lparr>obj = m1, count = k1\<rparr> call) = fst (invoke \<lparr>obj = m2, count = k2\<rparr> call)) \<and>
   fst (invoke \<lparr>obj = self, count = k\<rparr> (CallAccelerationResidual a v dx)) =
     Inr (FormResult (accelerationResidual self a v dx)) \<and>
   fst (invoke \<lparr>obj = self, count = k\<rparr> (CallMassDampingResidual vdot c' v dx)) =
     Inr (FormResult (massDampingResidual self vdot c' v dx)) \<and>
   fst (invoke \<lparr>obj = self, count = k\<rparr> (CallBodyforceResidual f v dx)) =
     Inr (FormResult (bodyforceResidual self f v dx)) \<and>
   fst (invoke \<lparr>obj = self, count = k\<rparr> (CallTractionBCResidual h v ds)) =
     Inr (FormResult (tractionBCResidual self h v ds)) \<and>
   fst (invoke \<lparr>obj = self, count = k\<rparr> (CallPenaltyWeakBCResidual u v g beta ds)) =
     Inr (FormResult (penaltyWeakBCResidual self u v g beta ds)) \<and>
   accelerationResidual self a v dx = spec_accelerationResidual (rho self) a v dx \<and>
   massDampingResidual self vdot c' v dx = spec_massDampingResidual (rho self) vdot c' v dx \<and>
   form_value \<rho> (bodyforceResidual self f v dx) =
     form_value \<rho> (spec_bodyforceResidual (rho self) f v dx) \<and>
   form_value \<rho> (tractionBCResidual self h v ds) =
     form_value \<rho> (spec_tractionBCResidual h v ds) \<and>
   penaltyWeakBCResidual self u v g beta ds = spec_penaltyWeakBCResidual u v g beta ds"
proof -
  have "c \<in> set concrete_laws \<and> m \<in> set shared_methods \<longrightarrow>
      m \<notin> set (map fst (declares c)) \<and> resolve c m = Some MaterialModel"
    by (auto simp: concrete_laws_def shared_methods_def resolve_def)
  moreover have "method_name call \<in> set shared_methods \<and> rho m1 = rho m2 \<longrightarrow>
      fst (invoke \<lparr>obj = m1, count = k1\<rparr> call) = fst (invoke \<lparr>obj = m2, count = k2\<rparr> call)"
    using run_body_shared_rho [of call "\<lparr>obj = m1, count = k1\<rparr>" "\<lparr>obj = m2, count = k2\<rparr>"]
    by (auto simp: invoke_shared)
  moreover have "form_value \<rho> (bodyforceResidual self f v dx) =
     form_value \<rho> (spec_bodyforceResidual (rho self) f v dx)"
    unfolding form_value_def bodyforceResidual_def spec_bodyforceResidual_def form.sel
    by (simp only: eval_Mul_Neg_left)
  moreover have "form_value \<rho> (tractionBCResidual self h v ds) =
     form_value \<rho> (spec_tractionBCResidual h v ds)"
    unfolding form_value_def tractionBCResidual_def spec_tractionBCResidual_def form.sel
    using eval_Inner_commute [of \<rho> v h] by simp
  ultimately show ?thesis
    by (simp add: invoke_shared shared_methods_def accelerationResidual_def
        spec_accelerationResidual_def massDampingResidual_def spec_massDampingResidual_def
        penaltyWeakBCResidual_def spec_penaltyWeakBCResidual_def)
qed

theorem shared_residuals_same_for_all_laws_witness:
  "resolve NeoHookean ''bodyforceResidual'' = Some MaterialModel \<and>
   fst (invoke \<lparr>obj = \<lparr>cls = StVenantKirchoff, rho = Constant 1 2,
                       props = [''kappa'' \<mapsto> Lit 3, ''mu'' \<mapsto> Lit 1]\<rparr>, count = 2\<rparr>
          (CallBodyforceResidual (Coefficient ''f'' [2] 2) (Coefficient ''v'' [2] 2)
             (Measure ''dx'' 0))) =
   fst (invoke \<lparr>obj = \<lparr>cls = JacobianStiffening, rho = Constant 1 2,
                       props = [''power_J_M'' \<mapsto> Lit 2]\<rparr>, count = 7\<rparr>
          (CallBodyforceResidual (Coefficient ''f'' [2] 2) (Coefficient ''v'' [2] 2)
             (Measure ''dx'' 0)))"
  using shared_residuals_same_for_all_laws
      [where c = NeoHookean and m = "''bodyforceResidual''", THEN conjunct1]
    shared_residuals_same_for_all_laws
      [where call = "CallBodyforceResidual (Coefficient ''f'' [2] 2) (Coefficient ''v'' [2] 2)
                       (Measure ''dx'' 0)"
         and ?m1.0 = "\<lparr>cls = StVenantKirchoff, rho = Constant 1 2,
                        props = [''kappa'' \<mapsto> Lit 3, ''mu'' \<mapsto> Lit 1]\<rparr>"
         and ?m2.0 = "\<lparr>cls = JacobianStiffening, rho = Constant 1 2,
                        props = [''power_J_M'' \<mapsto> Lit 2]\<rparr>"
         and ?k1.0 = 2 and ?k2.0 = 7,
       THEN conjunct2, THEN conjunct1]
  by (simp add: concrete_laws_def shared_methods_def)

section \<open>The kinematic tensors\<close>

lemma spec_nsd_vector_field: "vector_field n u \<Longrightarrow> spec_nsd u = n"
  by (simp add: vector_field_def spec_nsd_def)

lemma getBasicTensors_refused:
  assumes "\<not> (\<exists>n. vector_field n u)"
  shows "getBasicTensors self u = Inl UFLException"
proof (cases "getBasicTensors self u")
  case (Inl e)
  with getBasicTensors_Inl [OF Inl] show ?thesis by simp
next
  case (Inr t)
  with getBasicTensors_Inr_vector_field [OF Inr] assms show ?thesis by simp
qed


text \<open>
  Once \<^verbatim>\<open>getBasicTensors\<close> has built the sum, the operands of its other operators fit:
  the determinant is taken of a square matrix, the product is of two matrices with a
  common inner size, and the difference is of two matrices of one shape.
\<close>

lemma getBasicTensors_shapes:
  assumes "getBasicTensors self u = Inr (I, F, J, C, E)"
  shows "\<exists>n. ufl_shape I = [n, n] \<and> ufl_shape F = [n, n] \<and> ufl_shape (Transposed F) = [n, n] \<and>
             ufl_shape C = [n, n] \<and> ufl_shape E = [n, n] \<and> ufl_shape J = []"
proof -
  from getBasicTensors_Inr_vector_field [OF assms] obtain n where n: "vector_field n u" ..
  from assms show ?thesis
    unfolding getBasicTensors_vector_field [OF n]
    using n by (auto simp: vector_field_def)
qed








section \<open>Zero displacement\<close>

lemma eval_F_zero:
  assumes "eval \<rho> (Grad u) = Some (Mat (zero_mat n))"
  shows "eval \<rho> (Add (Grad u) (Identity n)) = Some (Mat (identity_mat n))"
  using assms by (simp add: val_simps del: val_defs)

lemma eval_J_one:
  assumes "eval \<rho> F = Some (Mat (identity_mat n))"
  shows "eval \<rho> (Det F) = Some (Sc 1)"
  by (simp add: assms val_simps del: val_defs)

lemma eval_C_identity:
  assumes "eval \<rho> F = Some (Mat (identity_mat n))"
  shows "eval \<rho> (Mul (Transposed F) F) = Some (Mat (identity_mat n))"
  by (simp add: assms val_simps del: val_defs)

lemma eval_E_zero:
  assumes "eval \<rho> C = Some (Mat (identity_mat n))"
  shows "eval \<rho> (Mul (Lit (1 / 2)) (Sub C (Identity n))) = Some (Mat (zero_mat n))"
  by (simp add: assms val_simps del: val_defs)

lemma zero_gradient_tensors:
  assumes "vector_field n u" and "eval \<rho> (Grad u) = Some (Mat (zero_mat n))"
  obtains I F J C E where "getBasicTensors self u = Inr (I, F, J, C, E)"
    and "I = Identity n"
    and "eval \<rho> I = Some (Mat (identity_mat n))"
    and "eval \<rho> F = Some (Mat (identity_mat n))"
    and "eval \<rho> J = Some (Sc 1)"
    and "eval \<rho> C = Some (Mat (identity_mat n))"
    and "eval \<rho> E = Some (Mat (zero_mat n))"
proof -
  let ?F = "Add (Grad u) (Identity n)"
  have F: "eval \<rho> ?F = Some (Mat (identity_mat n))"
    by (rule eval_F_zero [OF assms(2)])
  have C: "eval \<rho> (Mul (Transposed ?F) ?F) = Some (Mat (identity_mat n))"
    by (rule eval_C_identity [OF F])
  show thesis
    by (rule that [OF getBasicTensors_vector_field [OF assms(1)] refl _ F eval_J_one [OF F] C
          eval_E_zero [OF C]]) simp
qed

lemma StVenantKirchoff_rhs_zero:
  assumes "eval \<rho> kappa = Some (Sc k)" and "eval \<rho> mu = Some (Sc m)"
    and "eval \<rho> E = Some (Mat (zero_mat n))"
  shows "eval \<rho> (StVenantKirchoff_rhs kappa mu (Identity n) E) = Some (Mat (zero_mat n))"
  unfolding StVenantKirchoff_rhs_def
  by (simp add: assms val_simps del: val_defs)

lemma JacobianStiffening_rhs_eq:
  "JacobianStiffening_rhs K mu I E = StVenantKirchoff_rhs K mu I E"
  by (simp add: JacobianStiffening_rhs_def StVenantKirchoff_rhs_def)

lemma NeoHookean_rhs_zero:
  assumes "eval \<rho> kappa = Some (Sc k)" and "eval \<rho> mu = Some (Sc m)"
    and "eval \<rho> J = Some (Sc 1)" and "eval \<rho> C = Some (Mat (identity_mat n))"
  shows "eval \<rho> (NeoHookean_rhs mu kappa (Identity n) J C (Tr (Identity n))) =
           Some (Mat (zero_mat n))"
  unfolding NeoHookean_rhs_def
  by (simp add: assms val_simps del: val_defs)

lemma residual_integrand_zero:
  assumes "eval \<rho> F = Some (Mat (identity_mat n))" and "eval \<rho> S = Some (Mat (zero_mat n))"
    and "eval \<rho> (Grad v) = Some (Mat G)" and "map length G = replicate n n"
  shows "eval \<rho> (Inner (Mul F S) (Grad v)) = Some (Sc 0)"
  using assms(3,4) by (simp add: assms(1,2) val_simps del: val_defs)

lemma eval_bulkModulus:
  assumes "eval \<rho> E = Some (Sc e)" and "eval \<rho> nu = Some (Sc (3 / 10))"
  shows "eval \<rho> (bulkModulus E nu) = Some (Sc (5 * e / 6))"
  unfolding bulkModulus_def firstLameParameter_def secondLameParameter_def
  by (simp add: assms val_simps del: val_defs)

lemma eval_shearModulus:
  assumes "eval \<rho> E = Some (Sc e)" and "eval \<rho> nu = Some (Sc (3 / 10))"
  shows "eval \<rho> (shearModulus E nu) = Some (Sc (5 * e / 13))"
  unfolding shearModulus_def secondLameParameter_def
  by (simp add: assms val_simps del: val_defs)

lemma eval_reciprocal:
  assumes "eval \<rho> P = Some (Sc q)" and "q \<noteq> 0"
  shows "eval \<rho> (Div (Constant j 1) P) = Some (Sc (1 / q))"
  by (simp add: assms val_simps del: val_defs)

lemma is_scalarE:
  assumes "is_scalar \<rho> e"
  obtains x where "eval \<rho> e = Some (Sc x)"
  using assms by (auto simp: is_scalar_def split: option.splits val.splits)

lemma has_scalarE:
  assumes "has_scalar \<rho> self key"
  obtains e x where "props self key = Some e" and "eval \<rho> e = Some (Sc x)"
  using assms by (auto simp: has_scalar_def elim: is_scalarE split: option.splits)

lemma has_nonzero_powerE:
  assumes "has_nonzero_power \<rho> self J_M"
  obtains p q where "props self ''power_J_M'' = Some p"
    and "eval \<rho> (Power J_M p) = Some (Sc q)" and "q \<noteq> 0"
  using assms
  by (auto simp: has_nonzero_power_def split: option.splits val.splits simp del: eval.simps)

lemma StVenantKirchoff_zero:
  assumes "vector_field n u" and "eval \<rho> (Grad u) = Some (Mat (zero_mat n))"
    and "eval \<rho> (Grad v) = Some (Mat G)" and "map length G = replicate n n"
    and "has_scalar \<rho> self ''kappa''" and "has_scalar \<rho> self ''mu''"
  shows "stress_vanishes \<rho> n (StVenantKirchoff_S self u)"
    and "residual_vanishes \<rho> dx (StVenantKirchoff_interiorResidual self u v dx)"
proof -
  obtain I F J C E where t: "getBasicTensors self u = Inr (I, F, J, C, E)" "I = Identity n"
    and F: "eval \<rho> F = Some (Mat (identity_mat n))"
    and E: "eval \<rho> E = Some (Mat (zero_mat n))"
    using zero_gradient_tensors [OF assms(1,2)] by metis
  obtain kappa k where kappa: "props self ''kappa'' = Some kappa" "eval \<rho> kappa = Some (Sc k)"
    using assms(5) by (rule has_scalarE)
  obtain mu m where mu: "props self ''mu'' = Some mu" "eval \<rho> mu = Some (Sc m)"
    using assms(6) by (rule has_scalarE)
  let ?S = "StVenantKirchoff_rhs kappa mu (Identity n) E"
  have S: "StVenantKirchoff_S self u = Inr ?S"
    by (simp add: StVenantKirchoff_S_def t getitem_def kappa(1) mu(1))
  have Sz: "eval \<rho> ?S = Some (Mat (zero_mat n))"
    by (rule StVenantKirchoff_rhs_zero [OF kappa(2) mu(2) E])
  show "stress_vanishes \<rho> n (StVenantKirchoff_S self u)"
    unfolding stress_vanishes_def S using Sz by simp
  have "StVenantKirchoff_interiorResidual self u v dx =
          Inr (Integral (Inner (Mul F ?S) (Grad v)) dx)"
    by (simp add: StVenantKirchoff_interiorResidual_def t S)
  then show "residual_vanishes \<rho> dx (StVenantKirchoff_interiorResidual self u v dx)"
    unfolding residual_vanishes_def
    using residual_integrand_zero [OF F Sz assms(3,4)] by simp
qed

lemma eval_add_default_S0:
  assumes "eval \<rho> S = Some (Mat (zero_mat n))"
  shows "eval \<rho> (Add S (Mul (Constant j 0) (Identity n))) = Some (Mat (zero_mat n))"
  by (simp add: assms val_simps del: val_defs)

lemma NeoHookean_zero:
  assumes "vector_field n u" and "eval \<rho> (Grad u) = Some (Mat (zero_mat n))"
    and "eval \<rho> (Grad v) = Some (Mat G)" and "map length G = replicate n n"
    and "has_scalar \<rho> self ''kappa''" and "has_scalar \<rho> self ''mu''"
  shows "stress_vanishes \<rho> n (NeoHookean_S self u)"
    and "residual_vanishes \<rho> dx (fst (NeoHookean_interiorResidual self u v None dx j))"
proof -
  obtain I F J C E where t: "getBasicTensors self u = Inr (I, F, J, C, E)" "I = Identity n"
    and F: "eval \<rho> F = Some (Mat (identity_mat n))"
    and J: "eval \<rho> J = Some (Sc 1)"
    and C: "eval \<rho> C = Some (Mat (identity_mat n))"
    using zero_gradient_tensors [OF assms(1,2)] by metis
  obtain kappa k where kappa: "props self ''kappa'' = Some kappa" "eval \<rho> kappa = Some (Sc k)"
    using assms(5) by (rule has_scalarE)
  obtain mu m where mu: "props self ''mu'' = Some mu" "eval \<rho> mu = Some (Sc m)"
    using assms(6) by (rule has_scalarE)
  let ?S = "NeoHookean_rhs mu kappa (Identity n) J C (Tr (Identity n))"
  let ?D = "Mul (Constant j 0) (Identity n)"
  have S: "NeoHookean_S self u = Inr ?S"
    by (simp add: NeoHookean_S_def t getitem_def kappa(1) mu(1))
  have Sz: "eval \<rho> ?S = Some (Mat (zero_mat n))"
    by (rule NeoHookean_rhs_zero [OF kappa(2) mu(2) J C])
  show "stress_vanishes \<rho> n (NeoHookean_S self u)"
    unfolding stress_vanishes_def S using Sz by simp
  have SS0: "eval \<rho> (Add ?S ?D) = Some (Mat (zero_mat n))"
    by (rule eval_add_default_S0 [OF Sz])
  have "fst (NeoHookean_interiorResidual self u v None dx j) =
          Inr (Integral (Inner (Mul F (Add ?S ?D)) (Grad v)) dx)"
    by (simp add: NeoHookean_interiorResidual_def t S)
  then show "residual_vanishes \<rho> dx (fst (NeoHookean_interiorResidual self u v None dx j))"
    unfolding residual_vanishes_def
    using residual_integrand_zero [OF F SS0 assms(3,4)] by simp
qed

lemma JacobianStiffening_moduli:
  assumes "props self ''power_J_M'' = Some p"
  shows "JacobianStiffening_K self J_M j =
           Inr (bulkModulus (Div (Constant j 1) (Power J_M p)) (Constant (Suc j) (3 / 10)))"
    and "JacobianStiffening_mu self J_M j =
           Inr (shearModulus (Div (Constant j 1) (Power J_M p)) (Constant (Suc j) (3 / 10)))"
  by (simp_all add: JacobianStiffening_K_def JacobianStiffening_mu_def getitem_def assms)

lemma JacobianStiffening_zero:
  assumes "vector_field n u" and "eval \<rho> (Grad u) = Some (Mat (zero_mat n))"
    and "eval \<rho> (Grad v) = Some (Mat G)" and "map length G = replicate n n"
    and "has_nonzero_power \<rho> self J_M"
  shows "stress_vanishes \<rho> n (JacobianStiffening_S self u J_M j)"
    and "residual_vanishes \<rho> dx
           (fst (JacobianStiffening_interiorResidual self u v J_M dx j))"
proof -
  obtain I F J C E where t: "getBasicTensors self u = Inr (I, F, J, C, E)" "I = Identity n"
    and F: "eval \<rho> F = Some (Mat (identity_mat n))"
    and E: "eval \<rho> E = Some (Mat (zero_mat n))"
    using zero_gradient_tensors [OF assms(1,2)] by metis
  obtain p q where p: "props self ''power_J_M'' = Some p"
    and q: "eval \<rho> (Power J_M p) = Some (Sc q)" "q \<noteq> 0"
    using assms(5) by (rule has_nonzero_powerE)
  let ?E = "Div (Constant j 1) (Power J_M p)"
  let ?K = "bulkModulus ?E (Constant (Suc j) (3 / 10))"
  let ?mu = "shearModulus ?E (Constant (Suc j) (3 / 10))"
  have fE: "eval \<rho> ?E = Some (Sc (1 / q))"
    by (rule eval_reciprocal [OF q])
  have nu: "eval \<rho> (Constant (Suc j) (3 / 10)) = Some (Sc (3 / 10))"
    by simp
  let ?S = "StVenantKirchoff_rhs ?K ?mu (Identity n) E"
  have S: "JacobianStiffening_S self u J_M j = Inr ?S"
    by (simp add: JacobianStiffening_S_def t JacobianStiffening_moduli [OF p]
        JacobianStiffening_rhs_eq)
  have Sz: "eval \<rho> ?S = Some (Mat (zero_mat n))"
    by (rule StVenantKirchoff_rhs_zero [OF eval_bulkModulus [OF fE nu]
          eval_shearModulus [OF fE nu] E])
  show "stress_vanishes \<rho> n (JacobianStiffening_S self u J_M j)"
    unfolding stress_vanishes_def S using Sz by simp
  have "fst (JacobianStiffening_interiorResidual self u v J_M dx j) =
          Inr (Integral (Inner (Mul F ?S) (Grad v)) dx)"
    by (simp add: JacobianStiffening_interiorResidual_def t S)
  then show "residual_vanishes \<rho> dx
      (fst (JacobianStiffening_interiorResidual self u v J_M dx j))"
    unfolding residual_vanishes_def
    using residual_integrand_zero [OF F Sz assms(3,4)] by simp
qed

text \<open>
  C1: for a zero displacement every law gives a zero stress and a zero residual. The
  displacement \<open>u\<close> has \<open>n\<close> components on a domain of dimension \<open>n\<close> and its gradient at
  the point is the zero \<open>n\<close> by \<open>n\<close> matrix (only the gradient of \<open>u\<close> enters the tensors);
  the gradient of the test function \<open>v\<close> is any \<open>n\<close> by \<open>n\<close> matrix; the measure is any.
  Then the tensors are built, with \<open>F = I\<close>, \<open>J = 1\<close>, \<open>C = I\<close> and \<open>E = 0\<close>. Where the
  properties \<^verbatim>\<open>kappa\<close> and \<^verbatim>\<open>mu\<close> are present with scalar values, the stress \<open>S\<close> of the
  St. Venant-Kirchhoff and of the Neo-Hookean law (called without \<^verbatim>\<open>S0\<close>) is the zero
  matrix and the integrand of \<^verbatim>\<open>interiorResidual\<close> is zero; where \<^verbatim>\<open>pow(J_M, power_J_M)\<close>
  has a value other than zero, the same holds for the stiffening law.
\<close>

theorem zero_displacement_gives_zero_stress:
  assumes "vector_field n u" and "eval \<rho> (Grad u) = Some (Mat (zero_mat n))"
    and "eval \<rho> (Grad v) = Some (Mat G)" and "map length G = replicate n n"
  shows "(\<exists>I F J C E. getBasicTensors self u = Inr (I, F, J, C, E) \<and>
            eval \<rho> I = Some (Mat (identity_mat n)) \<and>
            eval \<rho> F = Some (Mat (identity_mat n)) \<and>
            eval \<rho> J = Some (Sc 1) \<and>
            eval \<rho> C = Some (Mat (identity_mat n)) \<and>
            eval \<rho> E = Some (Mat (zero_mat n))) \<and>
         (has_scalar \<rho> self ''kappa'' \<and> has_scalar \<rho> self ''mu'' \<longrightarrow>
            stress_vanishes \<rho> n (StVenantKirchoff_S self u) \<and>
            residual_vanishes \<rho> dx (StVenantKirchoff_interiorResidual self u v dx) \<and>
            stress_vanishes \<rho> n (NeoHookean_S self u) \<and>
            residual_vanishes \<rho> dx (fst (NeoHookean_interiorResidual self u v None dx j))) \<and>
         (has_nonzero_power \<rho> self J_M \<longrightarrow>
            stress_vanishes \<rho> n (JacobianStiffening_S self u J_M j) \<and>
            residual_vanishes \<rho> dx
              (fst (JacobianStiffening_interiorResidual self u v J_M dx j)))"
proof -
  obtain I F J C E where t: "getBasicTensors self u = Inr (I, F, J, C, E)"
    and v: "eval \<rho> I = Some (Mat (identity_mat n))" "eval \<rho> F = Some (Mat (identity_mat n))"
      "eval \<rho> J = Some (Sc 1)" "eval \<rho> C = Some (Mat (identity_mat n))"
      "eval \<rho> E = Some (Mat (zero_mat n))"
    using zero_gradient_tensors [OF assms(1,2)] by metis
  have "\<exists>I F J C E. getBasicTensors self u = Inr (I, F, J, C, E) \<and>
            eval \<rho> I = Some (Mat (identity_mat n)) \<and>
            eval \<rho> F = Some (Mat (identity_mat n)) \<and>
            eval \<rho> J = Some (Sc 1) \<and>
            eval \<rho> C = Some (Mat (identity_mat n)) \<and>
            eval \<rho> E = Some (Mat (zero_mat n))"
    using t v by blast
  then show ?thesis
    using StVenantKirchoff_zero [OF assms] NeoHookean_zero [OF assms]
      JacobianStiffening_zero [OF assms]
    by blast
qed

theorem zero_displacement_gives_zero_stress_witness:
  "residual_vanishes
     (\<lambda>e. if e = Grad (Coefficient ''u'' [2] 2) then Some (Mat (zero_mat 2))
          else if e = Grad (Coefficient ''v'' [2] 2) then Some (Mat [[1, 2], [3, 4]])
          else None)
     (Measure ''dx'' 0)
     (fst (NeoHookean_interiorResidual
        \<lparr>cls = NeoHookean, rho = Constant 1 1,
          props = [''kappa'' \<mapsto> Lit 3, ''mu'' \<mapsto> Lit 2]\<rparr>
        (Coefficient ''u'' [2] 2) (Coefficient ''v'' [2] 2) None (Measure ''dx'' 0) 2)) \<and>
   residual_vanishes
     (\<lambda>e. if e = Grad (Coefficient ''u'' [2] 2) then Some (Mat (zero_mat 2))
          else if e = Grad (Coefficient ''v'' [2] 2) then Some (Mat [[1, 2], [3, 4]])
          else None)
     (Measure ''dx'' 0)
     (fst (JacobianStiffening_interiorResidual
        \<lparr>cls = JacobianStiffening, rho = Constant 1 1, props = [''power_J_M'' \<mapsto> Lit 2]\<rparr>
        (Coefficient ''u'' [2] 2) (Coefficient ''v'' [2] 2) (Lit 2) (Measure ''dx'' 0) 2))"
  using zero_displacement_gives_zero_stress
    [where u = "Coefficient ''u'' [2] 2" and n = 2
      and \<rho> = "\<lambda>e. if e = Grad (Coefficient ''u'' [2] 2) then Some (Mat (zero_mat 2))
          else if e = Grad (Coefficient ''v'' [2] 2) then Some (Mat [[1, 2], [3, 4]])
          else None"
      and v = "Coefficient ''v'' [2] 2" and G = "[[1, 2], [3, 4]]"
      and self = "\<lparr>cls = NeoHookean, rho = Constant 1 1,
                    props = [''kappa'' \<mapsto> Lit 3, ''mu'' \<mapsto> Lit 2]\<rparr>"
      and dx = "Measure ''dx'' 0" and J_M = "Lit 2" and j = 2]
    zero_displacement_gives_zero_stress
    [where u = "Coefficient ''u'' [2] 2" and n = 2
      and \<rho> = "\<lambda>e. if e = Grad (Coefficient ''u'' [2] 2) then Some (Mat (zero_mat 2))
          else if e = Grad (Coefficient ''v'' [2] 2) then Some (Mat [[1, 2], [3, 4]])
          else None"
      and v = "Coefficient ''v'' [2] 2" and G = "[[1, 2], [3, 4]]"
      and self = "\<lparr>cls = JacobianStiffening, rho = Constant 1 1,
                    props = [''power_J_M'' \<mapsto> Lit 2]\<rparr>"
      and dx = "Measure ''dx'' 0" and J_M = "Lit 2" and j = 2]
  by (simp add: has_scalar_def is_scalar_def has_nonzero_power_def real_pow_def numeral_2_eq_2
      vector_field_def)


section \<open>A simple shear in two dimensions\<close>

lemma det_2x2: "det [[a, b], [c, d]] = a * d - b * c"
  by (simp add: del_def numeral_2_eq_2)

lemma mat_inv_2x2:
  "mat_inv [[a, b], [c, d]] =
     [[d / (a * d - b * c), - b / (a * d - b * c)],
      [- c / (a * d - b * c), a / (a * d - b * c)]]"
  by (simp add: mat_inv_def minor_def del_def numeral_2_eq_2)

lemma mat_mul_2x2:
  "mat_mul [[a, b], [c, d]] [[e, f], [g, h]] =
     [[a * e + b * g, a * f + b * h], [c * e + d * g, c * f + d * h]]"
  by (simp add: mat_mul_def mat_transpose_def ncols_def dot_def numeral_2_eq_2)

lemma mat_transpose_2x2: "mat_transpose [[a, b], [c, d]] = [[a, c], [b, d]]"
  by (simp add: mat_transpose_def ncols_def numeral_2_eq_2)

lemma trace_2x2: "trace [[a, b], [c, d]] = a + d"
  by (simp add: trace_def numeral_2_eq_2)

lemma identity_mat_2: "identity_mat 2 = [[1, 0], [0, 1]]"
  by (simp add: identity_mat_def numeral_2_eq_2)

lemma zero_mat_2: "zero_mat 2 = [[0, 0], [0, 0]]"
  by (simp add: zero_mat_def numeral_2_eq_2)

lemma shape_2x2:
  "is_square [[a, b], [c, d]]" "rectangular [[a, b], [c, d]]"
  by (simp_all add: is_square_def rectangular_def ncols_def)

lemmas simps_2x2 = det_2x2 mat_inv_2x2 mat_mul_2x2 mat_transpose_2x2 trace_2x2 identity_mat_2
  zero_mat_2 shape_2x2 dot_def

lemma shear_F:
  assumes "eval \<rho> (Grad u) = Some (Mat [[0, 1], [0, 0]])"
  shows "eval \<rho> (Add (Grad u) (Identity 2)) = Some (Mat [[1, 1], [0, 1]])"
  using assms by (simp add: simps_2x2 del: det.simps)

lemma shear_J:
  assumes "eval \<rho> F = Some (Mat [[1, 1], [0, 1]])"
  shows "eval \<rho> (Det F) = Some (Sc 1)"
  by (simp add: assms simps_2x2 del: det.simps)

lemma shear_C:
  assumes "eval \<rho> F = Some (Mat [[1, 1], [0, 1]])"
  shows "eval \<rho> (Mul (Transposed F) F) = Some (Mat [[1, 1], [1, 2]])"
  by (simp add: assms simps_2x2 del: det.simps)

lemma shear_E:
  assumes "eval \<rho> C = Some (Mat [[1, 1], [1, 2]])"
  shows "eval \<rho> (Mul (Lit (1 / 2)) (Sub C (Identity 2))) = Some (Mat [[0, 1 / 2], [1 / 2, 1 / 2]])"
  by (simp add: assms simps_2x2 del: det.simps)

lemma shear_NeoHookean_rhs:
  assumes "eval \<rho> mu = Some (Sc m)" and "eval \<rho> kappa = Some (Sc k)"
    and "eval \<rho> J = Some (Sc 1)" and "eval \<rho> C = Some (Mat [[1, 1], [1, 2]])"
  shows "eval \<rho> (NeoHookean_rhs mu kappa (Identity 2) J C (Tr (Identity 2))) =
           Some (Mat [[- 5 * m / 3, 4 * m / 3], [4 * m / 3, - m / 3]])"
  unfolding NeoHookean_rhs_def
  by (simp add: assms simps_2x2 real_pow_def bind2_def del: det.simps)

lemma shear_StVenantKirchoff_rhs:
  assumes "eval \<rho> kappa = Some (Sc k)" and "eval \<rho> mu = Some (Sc m)"
    and "eval \<rho> E = Some (Mat [[0, 1 / 2], [1 / 2, 1 / 2]])"
  shows "eval \<rho> (StVenantKirchoff_rhs kappa mu (Identity 2) E) =
           Some (Mat [[k / 2 - m / 3, m], [m, k / 2 + 2 * m / 3]])"
  unfolding StVenantKirchoff_rhs_def
  by (simp add: assms simps_2x2 bind2_def del: det.simps)

lemma shear_integrand:
  assumes "eval \<rho> F = Some (Mat [[1, 1], [0, 1]])"
    and "eval \<rho> S = Some (Mat [[s11, s12], [s21, s22]])"
    and "eval \<rho> (Grad v) = Some (Mat [[1, 2], [3, 4]])"
  shows "eval \<rho> (Inner (Mul F S) (Grad v)) = Some (Sc (s11 + 2 * s12 + 4 * s21 + 6 * s22))"
  using assms(3) by (simp add: assms(1,2) simps_2x2 bind2_def del: det.simps)

lemma shear_add:
  assumes "eval \<rho> S = Some (Mat [[s11, s12], [s21, s22]])"
    and "eval \<rho> D = Some (Mat [[a, 0], [0, a]])"
  shows "eval \<rho> (Add S D) = Some (Mat [[s11 + a, s12], [s21, s22 + a]])"
  by (simp add: assms bind2_def)

lemma shear_tensors:
  assumes "vector_field 2 u" and "eval \<rho> (Grad u) = Some (Mat [[0, 1], [0, 0]])"
  obtains I F J C E where "getBasicTensors self u = Inr (I, F, J, C, E)"
    and "I = Identity 2"
    and "F = Add (Grad u) (Identity 2)"
    and "eval \<rho> F = Some (Mat [[1, 1], [0, 1]])"
    and "eval \<rho> J = Some (Sc 1)"
    and "eval \<rho> C = Some (Mat [[1, 1], [1, 2]])"
    and "eval \<rho> E = Some (Mat [[0, 1 / 2], [1 / 2, 1 / 2]])"
proof -
  let ?F = "Add (Grad u) (Identity 2)"
  have F: "eval \<rho> ?F = Some (Mat [[1, 1], [0, 1]])"
    by (rule shear_F [OF assms(2)])
  have C: "eval \<rho> (Mul (Transposed ?F) ?F) = Some (Mat [[1, 1], [1, 2]])"
    by (rule shear_C [OF F])
  show thesis
    by (rule that [OF getBasicTensors_vector_field [OF assms(1)] refl refl F shear_J [OF F] C
          shear_E [OF C]])
qed

section \<open>The default reference stress of the Neo-Hookean law\<close>

lemma eval_default_S0: "eval \<rho> (Mul (Constant j 0) (Identity n)) = Some (Mat (zero_mat n))"
  by (simp add: val_simps del: val_defs)

lemma eval_residual_cong:
  assumes "eval \<rho> A = eval \<rho> B"
  shows "eval \<rho> (Inner (Mul F (Add S A)) G) = eval \<rho> (Inner (Mul F (Add S B)) G)"
  by (simp only: eval.simps assms)

lemma NeoHookean_interiorResidual_unfold:
  assumes "vector_field n u"
  shows "NeoHookean_interiorResidual self u v S0_arg dx k =
     (case NeoHookean_S self u of
        Inl e \<Rightarrow> Inl e
      | Inr S \<Rightarrow>
          Inr (Integral
                 (Inner (Mul (Add (Grad u) (Identity n))
                           (Add S (case S0_arg of
                                     None \<Rightarrow> Mul (Constant k 0) (Identity n)
                                   | Some s \<Rightarrow> s)))
                        (Grad v))
                 dx),
      case S0_arg of None \<Rightarrow> Suc k | Some s \<Rightarrow> k)"
  by (simp add: NeoHookean_interiorResidual_def getBasicTensors_vector_field [OF assms]
      split: option.split sum.split)

lemma NeoHookean_interiorResidual_refused:
  assumes "\<not> (\<exists>n. vector_field n u)"
  shows "NeoHookean_interiorResidual self u v S0_arg dx k = (Inl UFLException, k)"
  by (simp add: NeoHookean_interiorResidual_def getBasicTensors_refused [OF assms])

lemma NeoHookean_S_shear:
  assumes "vector_field 2 u" and "eval \<rho> (Grad u) = Some (Mat [[0, 1], [0, 0]])"
    and "props self ''mu'' = Some mu" and "eval \<rho> mu = Some (Sc m)"
    and "props self ''kappa'' = Some kappa" and "eval \<rho> kappa = Some (Sc c)"
  obtains S where "NeoHookean_S self u = Inr S"
    and "eval \<rho> S = Some (Mat [[- 5 * m / 3, 4 * m / 3], [4 * m / 3, - m / 3]])"
proof -
  obtain I F J C E where t: "getBasicTensors self u = Inr (I, F, J, C, E)" "I = Identity 2"
    and J: "eval \<rho> J = Some (Sc 1)"
    and C: "eval \<rho> C = Some (Mat [[1, 1], [1, 2]])"
    using shear_tensors [OF assms(1,2)] by metis
  let ?S = "NeoHookean_rhs mu kappa (Identity 2) J C (Tr (Identity 2))"
  have "NeoHookean_S self u = Inr ?S"
    by (simp add: NeoHookean_S_def t getitem_def assms(3,5))
  then show thesis
    using shear_NeoHookean_rhs [OF assms(4,6) J C] by (rule that)
qed

text \<open>
  The value of the Neo-Hookean residual for a simple shear, shear modulus \<open>m\<close> and a
  reference stress of value \<open>a\<close> times the identity: it depends on \<open>a\<close>.
\<close>

lemma NeoHookean_shear_value:
  assumes "vector_field 2 u" and "eval \<rho> (Grad u) = Some (Mat [[0, 1], [0, 0]])"
    and "props self ''mu'' = Some mu" and "eval \<rho> mu = Some (Sc m)"
    and "props self ''kappa'' = Some kappa" and "eval \<rho> kappa = Some (Sc c)"
    and "eval \<rho> (Grad v) = Some (Mat [[1, 2], [3, 4]])"
    and "eval \<rho> D = Some (Mat [[a, 0], [0, a]])"
  shows "residual_value \<rho> (fst (NeoHookean_interiorResidual self u v (Some D) dx k)) =
           Inr (Some (Sc (13 * m / 3 + 7 * a)), dx)"
proof -
  obtain S where S: "NeoHookean_S self u = Inr S"
    and Sv: "eval \<rho> S = Some (Mat [[- 5 * m / 3, 4 * m / 3], [4 * m / 3, - m / 3]])"
    using NeoHookean_S_shear [OF assms(1-6)] by metis
  let ?F = "Add (Grad u) (Identity 2)"
  have F: "eval \<rho> ?F = Some (Mat [[1, 1], [0, 1]])"
    by (rule shear_F [OF assms(2)])
  have "eval \<rho> (Inner (Mul ?F (Add S D)) (Grad v)) =
      Some (Sc (- 5 * m / 3 + a + 2 * (4 * m / 3) + 4 * (4 * m / 3) + 6 * (- m / 3 + a)))"
    by (rule shear_integrand [OF F shear_add [OF Sv assms(8)] assms(7)])
  also have "- 5 * m / 3 + a + 2 * (4 * m / 3) + 4 * (4 * m / 3) + 6 * (- m / 3 + a) =
      13 * m / 3 + 7 * a"
    by (simp add: field_simps)
  finally show ?thesis
    by (simp add: NeoHookean_interiorResidual_unfold [OF assms(1)] S residual_value_def
        form_value_def del: eval.simps)
qed

lemma NeoHookean_shear_value_default:
  assumes "vector_field 2 u" and "eval \<rho> (Grad u) = Some (Mat [[0, 1], [0, 0]])"
    and "props self ''mu'' = Some mu" and "eval \<rho> mu = Some (Sc m)"
    and "props self ''kappa'' = Some kappa" and "eval \<rho> kappa = Some (Sc c)"
    and "eval \<rho> (Grad v) = Some (Mat [[1, 2], [3, 4]])"
  shows "residual_value \<rho> (fst (NeoHookean_interiorResidual self u v None dx k)) =
           Inr (Some (Sc (13 * m / 3)), dx)"
proof -
  have D: "eval \<rho> (Mul (Constant k 0) (Identity 2)) = Some (Mat [[0, 0], [0, 0]])"
    using eval_default_S0 [of \<rho> k 2] by (simp only: zero_mat_2)
  have "fst (NeoHookean_interiorResidual self u v None dx k) =
        fst (NeoHookean_interiorResidual self u v (Some (Mul (Constant k 0) (Identity 2))) dx k)"
    by (simp add: NeoHookean_interiorResidual_unfold [OF assms(1)] split: sum.split)
  then show ?thesis
    using NeoHookean_shear_value [OF assms D, of dx k] by simp
qed

text \<open>
  With a reference stress of value 7 times the identity the residual of the shear has the
  value 62, where it has 13 with none.
\<close>

lemma NeoHookean_reference_stress_counts:
  "residual_value
     (\<lambda>e. if e = Grad (Coefficient ''u'' [2] 2) then Some (Mat [[0, 1], [0, 0]])
          else if e = Grad (Coefficient ''v'' [2] 2) then Some (Mat [[1, 2], [3, 4]])
          else None)
     (fst (NeoHookean_interiorResidual
        \<lparr>cls = NeoHookean, rho = Constant 1 1,
          props = [''kappa'' \<mapsto> Lit 2, ''mu'' \<mapsto> Lit 3]\<rparr>
        (Coefficient ''u'' [2] 2) (Coefficient ''v'' [2] 2)
        (Some (Mul (Lit 7) (Identity 2))) (Measure ''dx'' 0) 5)) =
   Inr (Some (Sc 62), Measure ''dx'' 0)"
proof -
  let ?\<rho> = "\<lambda>e. if e = Grad (Coefficient ''u'' [2] 2) then Some (Mat [[0, 1], [0, 0]])
          else if e = Grad (Coefficient ''v'' [2] 2) then Some (Mat [[1, 2], [3, 4]])
          else None"
  have "eval ?\<rho> (Mul (Lit 7) (Identity 2)) = Some (Mat [[7, 0], [0, 7]])"
    by (simp add: identity_mat_2 bind2_def)
  from NeoHookean_shear_value
    [where \<rho> = ?\<rho> and u = "Coefficient ''u'' [2] 2" and v = "Coefficient ''v'' [2] 2"
       and mu = "Lit 3" and m = 3 and kappa = "Lit 2" and c = 2 and a = 7
       and D = "Mul (Lit 7) (Identity 2)", OF _ _ _ _ _ _ _ this]
  show ?thesis
    by (simp add: vector_field_def)
qed

text \<open>
  C6: the Neo-Hookean \<^verbatim>\<open>interiorResidual\<close> called without \<^verbatim>\<open>S0\<close> does not return the
  expression it returns for a zero tensor passed by the caller: it puts
  \<^verbatim>\<open>Constant(0)*I\<close> in the place of \<^verbatim>\<open>S0\<close>, with a \<^verbatim>\<open>Constant\<close> created by the call, which
  no expression of the caller contains. The two expressions have the same value: for any
  \<^verbatim>\<open>S0\<close> of the shape of \<open>I\<close> whose value is the zero matrix of the inferred dimension,
  the two calls fail with the same error or return forms with the same measure and the
  same integrand value at the point. Where the call returns a form (a displacement and a
  test function with \<open>n\<close> components on a domain of dimension \<open>n\<close>, scalar properties),
  the two forms are \<^verbatim>\<open>inner(F*(S+S0),grad(v))*dx\<close> with the same \<open>F\<close> and \<open>S\<close>, the one
  with the new \<^verbatim>\<open>Constant(0)*I\<close>, of value the zero matrix, the other with the \<^verbatim>\<open>S0\<close>
  passed; the first call has created one \<^verbatim>\<open>Constant\<close>, the second none.
\<close>

theorem NeoHookean_default_S0_is_zero_tensor:
  assumes "eval \<rho> S_zero = Some (Mat (zero_mat (spec_nsd u)))"
    and "ufl_shape S_zero = [spec_nsd u, spec_nsd u]"
  shows "residual_value \<rho> (fst (NeoHookean_interiorResidual self u v None dx k)) =
         residual_value \<rho> (fst (NeoHookean_interiorResidual self u v (Some S_zero) dx k')) \<and>
   (vector_field n u \<and> vector_field n v \<and>
    props self ''mu'' = Some mu \<and> ufl_shape mu = [] \<and>
    props self ''kappa'' = Some kappa \<and> ufl_shape kappa = [] \<longrightarrow>
      (\<exists>I F J C E S. getBasicTensors self u = Inr (I, F, J, C, E) \<and>
         NeoHookean_S self u = Inr S \<and>
         NeoHookean_interiorResidual self u v None dx k =
           (Inr (Integral (Inner (Mul F (Add S (Mul (Constant k 0) I))) (Grad v)) dx), Suc k) \<and>
         NeoHookean_interiorResidual self u v (Some S_zero) dx k' =
           (Inr (Integral (Inner (Mul F (Add S S_zero)) (Grad v)) dx), k') \<and>
         eval \<rho> (Mul (Constant k 0) I) = Some (Mat (zero_mat n))))"
proof -
  note z = assms(1)
  have sem: "residual_value \<rho> (fst (NeoHookean_interiorResidual self u v None dx k)) =
        residual_value \<rho> (fst (NeoHookean_interiorResidual self u v (Some S_zero) dx k'))"
  proof (cases "\<exists>d. vector_field d u")
    case False
    then show ?thesis
      by (simp add: NeoHookean_interiorResidual_refused)
  next
    case True
    then obtain d where d: "vector_field d u" ..
    have nsd: "spec_nsd u = d"
      by (rule spec_nsd_vector_field [OF d])
    show ?thesis
    proof (cases "NeoHookean_S self u")
      case (Inl e)
      then show ?thesis
        by (simp add: NeoHookean_interiorResidual_unfold [OF d] residual_value_def)
    next
      case (Inr S)
      have "eval \<rho> (Mul (Constant k 0) (Identity d)) = eval \<rho> S_zero"
        unfolding z nsd by (rule eval_default_S0)
      from eval_residual_cong [OF this] show ?thesis
        by (simp add: NeoHookean_interiorResidual_unfold [OF d] Inr residual_value_def
            form_value_def del: eval.simps)
    qed
  qed
  have syn: "\<exists>I F J C E S. getBasicTensors self u = Inr (I, F, J, C, E) \<and>
         NeoHookean_S self u = Inr S \<and>
         NeoHookean_interiorResidual self u v None dx k =
           (Inr (Integral (Inner (Mul F (Add S (Mul (Constant k 0) I))) (Grad v)) dx), Suc k) \<and>
         NeoHookean_interiorResidual self u v (Some S_zero) dx k' =
           (Inr (Integral (Inner (Mul F (Add S S_zero)) (Grad v)) dx), k') \<and>
         eval \<rho> (Mul (Constant k 0) I) = Some (Mat (zero_mat n))"
    if n: "vector_field n u" and mu: "props self ''mu'' = Some mu"
      and kappa: "props self ''kappa'' = Some kappa"
  proof -
    let ?F = "Add (Grad u) (Identity n)"
    let ?C = "Mul (Transposed ?F) ?F"
    let ?S = "NeoHookean_rhs mu kappa (Identity n) (Det ?F) ?C (Tr (Identity n))"
    have S: "NeoHookean_S self u = Inr ?S"
      by (simp add: NeoHookean_S_def getBasicTensors_vector_field [OF n] getitem_def mu kappa)
    show ?thesis
      unfolding getBasicTensors_vector_field [OF n]
      apply (intro exI conjI)
          apply (rule refl)
         apply (rule S)
        apply (simp add: NeoHookean_interiorResidual_unfold [OF n] S)
       apply (simp add: NeoHookean_interiorResidual_unfold [OF n] S)
      apply (rule eval_default_S0)
      done
  qed
  show ?thesis
    using syn sem by blast
qed

theorem NeoHookean_default_S0_is_zero_tensor_witness:
  "residual_value
     (\<lambda>e. if e = Grad (Coefficient ''u'' [2] 2) then Some (Mat [[0, 1], [0, 0]])
          else if e = Grad (Coefficient ''v'' [2] 2) then Some (Mat [[1, 2], [3, 4]])
          else if e = Coefficient ''S0'' [2, 2] 2 then Some (Mat (zero_mat 2))
          else None)
     (fst (NeoHookean_interiorResidual
        \<lparr>cls = NeoHookean, rho = Constant 1 1,
          props = [''kappa'' \<mapsto> Lit 2, ''mu'' \<mapsto> Lit 3]\<rparr>
        (Coefficient ''u'' [2] 2) (Coefficient ''v'' [2] 2) None (Measure ''dx'' 0) 5)) =
   Inr (Some (Sc 13), Measure ''dx'' 0) \<and>
   residual_value
     (\<lambda>e. if e = Grad (Coefficient ''u'' [2] 2) then Some (Mat [[0, 1], [0, 0]])
          else if e = Grad (Coefficient ''v'' [2] 2) then Some (Mat [[1, 2], [3, 4]])
          else if e = Coefficient ''S0'' [2, 2] 2 then Some (Mat (zero_mat 2))
          else None)
     (fst (NeoHookean_interiorResidual
        \<lparr>cls = NeoHookean, rho = Constant 1 1,
          props = [''kappa'' \<mapsto> Lit 2, ''mu'' \<mapsto> Lit 3]\<rparr>
        (Coefficient ''u'' [2] 2) (Coefficient ''v'' [2] 2)
        (Some (Coefficient ''S0'' [2, 2] 2)) (Measure ''dx'' 0) 5)) =
   Inr (Some (Sc 13), Measure ''dx'' 0)"
proof -
  let ?\<rho> = "\<lambda>e. if e = Grad (Coefficient ''u'' [2] 2) then Some (Mat [[0, 1], [0, 0]])
          else if e = Grad (Coefficient ''v'' [2] 2) then Some (Mat [[1, 2], [3, 4]])
          else if e = Coefficient ''S0'' [2, 2] 2 then Some (Mat (zero_mat 2))
          else None"
  let ?m = "\<lparr>cls = NeoHookean, rho = Constant 1 1,
          props = [''kappa'' \<mapsto> Lit 2, ''mu'' \<mapsto> Lit 3]\<rparr>"
  have "residual_value ?\<rho>
      (fst (NeoHookean_interiorResidual ?m (Coefficient ''u'' [2] 2) (Coefficient ''v'' [2] 2)
         None (Measure ''dx'' 0) 5)) = Inr (Some (Sc 13), Measure ''dx'' 0)"
    using NeoHookean_shear_value_default
      [where \<rho> = ?\<rho> and u = "Coefficient ''u'' [2] 2" and v = "Coefficient ''v'' [2] 2"
        and self = ?m and mu = "Lit 3" and m = 3 and kappa = "Lit 2" and c = 2
        and dx = "Measure ''dx'' 0" and k = 5]
    by (simp add: vector_field_def)
  with NeoHookean_default_S0_is_zero_tensor
    [where \<rho> = ?\<rho> and u = "Coefficient ''u'' [2] 2" and v = "Coefficient ''v'' [2] 2"
      and self = ?m and S_zero = "Coefficient ''S0'' [2, 2] 2" and dx = "Measure ''dx'' 0"
      and k = 5 and k' = 5, THEN conjunct1]
  show ?thesis
    by (simp add: spec_nsd_def)
qed

text \<open>
  The zero tensor \<^verbatim>\<open>Constant(0)*Identity(2)\<close> of a caller, its \<^verbatim>\<open>Constant\<close> created before
  the call, and the call without \<^verbatim>\<open>S0\<close>: the two forms returned are not the same
  expression.
\<close>

theorem NeoHookean_default_S0_is_a_new_Constant:
  "fst (NeoHookean_interiorResidual
        \<lparr>cls = NeoHookean, rho = Constant 1 1,
          props = [''kappa'' \<mapsto> Lit 2, ''mu'' \<mapsto> Lit 3]\<rparr>
        (Coefficient ''u'' [2] 2) (Coefficient ''v'' [2] 2) None (Measure ''dx'' 0) 5) \<noteq>
   fst (NeoHookean_interiorResidual
        \<lparr>cls = NeoHookean, rho = Constant 1 1,
          props = [''kappa'' \<mapsto> Lit 2, ''mu'' \<mapsto> Lit 3]\<rparr>
        (Coefficient ''u'' [2] 2) (Coefficient ''v'' [2] 2)
        (Some (Mul (Constant 2 0) (Identity 2))) (Measure ''dx'' 0) 5)"
  by (simp add: NeoHookean_interiorResidual_unfold [of 2] vector_field_def NeoHookean_S_def
      getBasicTensors_vector_field [of 2] getitem_def)

section \<open>Jacobian stiffening with a unit mesh Jacobian\<close>

lemma eval_power_of_one:
  assumes "eval \<rho> J_M = Some (Sc 1)" and "eval \<rho> p = Some (Sc e)"
  shows "eval \<rho> (Power J_M p) = Some (Sc 1)"
  by (simp add: assms val_simps del: val_defs)

lemma eval_moduli_reference:
  "eval \<rho> (bulkModulus (Lit 1) (Lit (3 / 10))) = Some (Sc (5 / 6))"
  "eval \<rho> (shearModulus (Lit 1) (Lit (3 / 10))) = Some (Sc (5 / 13))"
  using eval_bulkModulus [of \<rho> "Lit 1" 1 "Lit (3 / 10)"]
    eval_shearModulus [of \<rho> "Lit 1" 1 "Lit (3 / 10)"]
  by simp_all

lemma eval_moduli_unit:
  assumes "eval \<rho> J_M = Some (Sc 1)" and "eval \<rho> p = Some (Sc e)"
  shows "eval \<rho> (bulkModulus (Div (Constant k 1) (Power J_M p)) (Constant (Suc k) (3 / 10))) =
           Some (Sc (5 / 6))"
    and "eval \<rho> (shearModulus (Div (Constant k 1) (Power J_M p)) (Constant (Suc k) (3 / 10))) =
           Some (Sc (5 / 13))"
proof -
  let ?E = "Div (Constant k 1) (Power J_M p)"
  have fE: "eval \<rho> ?E = Some (Sc 1)"
    using eval_reciprocal [OF eval_power_of_one [OF assms]] by simp
  have nu: "eval \<rho> (Constant (Suc k) (3 / 10)) = Some (Sc (3 / 10))"
    by simp
  show "eval \<rho> (bulkModulus ?E (Constant (Suc k) (3 / 10))) = Some (Sc (5 / 6))"
    using eval_bulkModulus [OF fE nu] by simp
  show "eval \<rho> (shearModulus ?E (Constant (Suc k) (3 / 10))) = Some (Sc (5 / 13))"
    using eval_shearModulus [OF fE nu] by simp
qed

lemma eval_StVenantKirchoff_residual_cong:
  assumes "eval \<rho> K = eval \<rho> K'" and "eval \<rho> mu = eval \<rho> mu'"
  shows "eval \<rho> (Inner (Mul F (StVenantKirchoff_rhs K mu I E)) G) =
         eval \<rho> (Inner (Mul F (StVenantKirchoff_rhs K' mu' I E)) G)"
  unfolding StVenantKirchoff_rhs_def by (simp only: eval.simps assms)

lemma JacobianStiffening_interiorResidual_unfold:
  assumes "vector_field n u" and "props self ''power_J_M'' = Some p"
  shows "JacobianStiffening_S self u J_M k =
           Inr (StVenantKirchoff_rhs
                  (bulkModulus (Div (Constant k 1) (Power J_M p)) (Constant (Suc k) (3 / 10)))
                  (shearModulus (Div (Constant k 1) (Power J_M p)) (Constant (Suc k) (3 / 10)))
                  (Identity n)
                  (Mul (Lit (1 / 2))
                     (Sub (Mul (Transposed (Add (Grad u) (Identity n)))
                               (Add (Grad u) (Identity n)))
                          (Identity n))))"
    and "JacobianStiffening_interiorResidual self u v J_M dx k =
           (Inr (Integral
              (Inner
                 (Mul (Add (Grad u) (Identity n))
                    (StVenantKirchoff_rhs
                       (bulkModulus (Div (Constant k 1) (Power J_M p))
                          (Constant (Suc k) (3 / 10)))
                       (shearModulus (Div (Constant k 1) (Power J_M p))
                          (Constant (Suc k) (3 / 10)))
                       (Identity n)
                       (Mul (Lit (1 / 2))
                          (Sub (Mul (Transposed (Add (Grad u) (Identity n)))
                                    (Add (Grad u) (Identity n)))
                               (Identity n)))))
                 (Grad v))
              dx), k + 2)"
  by (simp_all add: JacobianStiffening_interiorResidual_def JacobianStiffening_S_def
      getBasicTensors_vector_field [OF assms(1)] JacobianStiffening_moduli [OF assms(2)]
      JacobianStiffening_rhs_eq)

lemma StVenantKirchoff_interiorResidual_unfold:
  assumes "vector_field n u" and "props self ''kappa'' = Some kappa"
    and "props self ''mu'' = Some mu"
  shows "StVenantKirchoff_interiorResidual self u v dx =
           Inr (Integral
              (Inner
                 (Mul (Add (Grad u) (Identity n))
                    (StVenantKirchoff_rhs kappa mu (Identity n)
                       (Mul (Lit (1 / 2))
                          (Sub (Mul (Transposed (Add (Grad u) (Identity n)))
                                    (Add (Grad u) (Identity n)))
                               (Identity n)))))
                 (Grad v))
              dx)"
  by (simp add: StVenantKirchoff_interiorResidual_def StVenantKirchoff_S_def
      getBasicTensors_vector_field [OF assms(1)] getitem_def assms(2,3))

text \<open>
  The value of the residual of the stiffening law for a simple shear and a unit mesh
  Jacobian.
\<close>

lemma JacobianStiffening_shear_value:
  assumes "vector_field 2 u" and "eval \<rho> (Grad u) = Some (Mat [[0, 1], [0, 0]])"
    and "eval \<rho> (Grad v) = Some (Mat [[1, 2], [3, 4]])"
    and "props self ''power_J_M'' = Some p" and "eval \<rho> p = Some (Sc e)"
    and "eval \<rho> J_M = Some (Sc 1)"
  shows "residual_value \<rho> (fst (JacobianStiffening_interiorResidual self u v J_M dx k)) =
           Inr (Some (Sc (345 / 52)), dx)"
proof -
  let ?F = "Add (Grad u) (Identity 2)"
  let ?E = "Mul (Lit (1 / 2)) (Sub (Mul (Transposed ?F) ?F) (Identity 2))"
  let ?K = "bulkModulus (Div (Constant k 1) (Power J_M p)) (Constant (Suc k) (3 / 10))"
  let ?mu = "shearModulus (Div (Constant k 1) (Power J_M p)) (Constant (Suc k) (3 / 10))"
  have F: "eval \<rho> ?F = Some (Mat [[1, 1], [0, 1]])"
    by (rule shear_F [OF assms(2)])
  have E: "eval \<rho> ?E = Some (Mat [[0, 1 / 2], [1 / 2, 1 / 2]])"
    by (rule shear_E [OF shear_C [OF F]])
  have S: "eval \<rho> (StVenantKirchoff_rhs ?K ?mu (Identity 2) ?E) =
      Some (Mat [[5 / 6 / 2 - 5 / 13 / 3, 5 / 13], [5 / 13, 5 / 6 / 2 + 2 * (5 / 13) / 3]])"
    by (rule shear_StVenantKirchoff_rhs [OF eval_moduli_unit [OF assms(6,5)] E])
  have "eval \<rho> (Inner (Mul ?F (StVenantKirchoff_rhs ?K ?mu (Identity 2) ?E)) (Grad v)) =
      Some (Sc (5 / 6 / 2 - 5 / 13 / 3 + 2 * (5 / 13) + 4 * (5 / 13) +
                6 * (5 / 6 / 2 + 2 * (5 / 13) / 3)))"
    by (rule shear_integrand [OF F S assms(3)])
  also have "(5 / 6 / 2 - 5 / 13 / 3 + 2 * (5 / 13) + 4 * (5 / 13) +
                6 * (5 / 6 / 2 + 2 * (5 / 13) / 3) :: real) = 345 / 52"
    by simp
  finally show ?thesis
    by (simp add: JacobianStiffening_interiorResidual_unfold(2) [OF assms(1,4)]
        residual_value_def form_value_def del: eval.simps)
qed

text \<open>
  C7: in the stiffening law, when the mesh Jacobian \<^verbatim>\<open>J_M\<close> is a scalar of value 1 and
  the exponent under \<^verbatim>\<open>power_J_M\<close> a scalar of any value, the fictitious moduli have the
  values of \<^verbatim>\<open>bulkModulus(1, 0.3)\<close> and \<^verbatim>\<open>shearModulus(1, 0.3)\<close> (5/6 and 5/13). For a
  displacement and a test function with \<open>n\<close> components on a domain of dimension \<open>n\<close>,
  the stress is
  \<open>K*tr(E)*I + 2*mu*(E - tr(E)*I/3)\<close> with those moduli, \<^verbatim>\<open>interiorResidual\<close> returns
  \<^verbatim>\<open>inner(F*S,grad(v))*dx\<close> with that stress (and has created two \<^verbatim>\<open>Constant\<close>s), and
  the form has the measure and the integrand value of the St. Venant-Kirchhoff residual
  of an instance with \<^verbatim>\<open>kappa = bulkModulus(1, 0.3)\<close> and \<^verbatim>\<open>mu = shearModulus(1, 0.3)\<close>.
\<close>

theorem JacobianStiffening_unit_mesh_Jacobian:
  assumes "props self ''power_J_M'' = Some p" and "eval \<rho> p = Some (Sc e)"
    and "eval \<rho> J_M = Some (Sc 1)" and "ufl_shape p = []" and "ufl_shape J_M = []"
  shows "\<exists>K mu. JacobianStiffening_K self J_M k = Inr K \<and>
           JacobianStiffening_mu self J_M k = Inr mu \<and>
           eval \<rho> K = eval \<rho> (bulkModulus (Lit 1) (Lit (3 / 10))) \<and>
           eval \<rho> mu = eval \<rho> (shearModulus (Lit 1) (Lit (3 / 10))) \<and>
           eval \<rho> K = Some (Sc (5 / 6)) \<and> eval \<rho> mu = Some (Sc (5 / 13)) \<and>
           (vector_field n u \<and> vector_field n v \<longrightarrow>
              (\<exists>I F J C E. getBasicTensors self u = Inr (I, F, J, C, E) \<and>
                 JacobianStiffening_S self u J_M k =
                   Inr (Add (Mul (Mul K (Tr E)) I)
                            (Mul (Mul (Lit 2) mu) (Sub E (Div (Mul (Tr E) I) (Lit 3))))) \<and>
                 JacobianStiffening_interiorResidual self u v J_M dx k =
                   (Inr (Integral
                      (Inner
                         (Mul F (Add (Mul (Mul K (Tr E)) I)
                                     (Mul (Mul (Lit 2) mu)
                                        (Sub E (Div (Mul (Tr E) I) (Lit 3))))))
                         (Grad v))
                      dx), k + 2) \<and>
                 residual_value \<rho>
                   (fst (JacobianStiffening_interiorResidual self u v J_M dx k)) =
                 residual_value \<rho>
                   (StVenantKirchoff_interiorResidual
                      (self\<lparr>props := [''kappa'' \<mapsto> bulkModulus (Lit 1) (Lit (3 / 10)),
                                      ''mu'' \<mapsto> shearModulus (Lit 1) (Lit (3 / 10))]\<rparr>)
                      u v dx)))"
proof -
  let ?K = "bulkModulus (Div (Constant k 1) (Power J_M p)) (Constant (Suc k) (3 / 10))"
  let ?mu = "shearModulus (Div (Constant k 1) (Power J_M p)) (Constant (Suc k) (3 / 10))"
  let ?K1 = "bulkModulus (Lit 1) (Lit (3 / 10))"
  let ?mu1 = "shearModulus (Lit 1) (Lit (3 / 10))"
  let ?ref = "self\<lparr>props := [''kappa'' \<mapsto> ?K1, ''mu'' \<mapsto> ?mu1]\<rparr>"
  note K = eval_moduli_unit(1) [OF assms(3,2), of k]
  note mu = eval_moduli_unit(2) [OF assms(3,2), of k]
  have K1: "eval \<rho> ?K = eval \<rho> ?K1"
    unfolding K eval_moduli_reference ..
  have mu1: "eval \<rho> ?mu = eval \<rho> ?mu1"
    unfolding mu eval_moduli_reference ..
  have u: "\<exists>I F J C E. getBasicTensors self u = Inr (I, F, J, C, E) \<and>
         JacobianStiffening_S self u J_M k =
           Inr (Add (Mul (Mul ?K (Tr E)) I)
                    (Mul (Mul (Lit 2) ?mu) (Sub E (Div (Mul (Tr E) I) (Lit 3))))) \<and>
         JacobianStiffening_interiorResidual self u v J_M dx k =
           (Inr (Integral
              (Inner
                 (Mul F (Add (Mul (Mul ?K (Tr E)) I)
                             (Mul (Mul (Lit 2) ?mu) (Sub E (Div (Mul (Tr E) I) (Lit 3))))))
                 (Grad v))
              dx), k + 2) \<and>
         residual_value \<rho> (fst (JacobianStiffening_interiorResidual self u v J_M dx k)) =
         residual_value \<rho> (StVenantKirchoff_interiorResidual ?ref u v dx)"
    if n: "vector_field n u"
  proof -
    have ref: "props ?ref ''kappa'' = Some ?K1" "props ?ref ''mu'' = Some ?mu1"
      by simp_all
    have val: "residual_value \<rho> (fst (JacobianStiffening_interiorResidual self u v J_M dx k)) =
        residual_value \<rho> (StVenantKirchoff_interiorResidual ?ref u v dx)"
      unfolding JacobianStiffening_interiorResidual_unfold(2) [OF n assms(1)]
        StVenantKirchoff_interiorResidual_unfold [OF n ref]
      using eval_StVenantKirchoff_residual_cong [OF K1 mu1]
      by (simp add: residual_value_def form_value_def del: eval.simps)
    show ?thesis
      unfolding getBasicTensors_vector_field [OF n]
      apply (intro exI conjI)
         apply (rule refl)
        apply (simp add: JacobianStiffening_interiorResidual_unfold(1) [OF n assms(1)]
          StVenantKirchoff_rhs_def)
       apply (simp add: JacobianStiffening_interiorResidual_unfold(2) [OF n assms(1)]
          StVenantKirchoff_rhs_def)
      apply (rule val)
      done
  qed
  show ?thesis
    using JacobianStiffening_moduli [OF assms(1), of J_M k] K mu K1 mu1 u
    by (intro exI [of _ ?K] exI [of _ ?mu]) (simp del: eval.simps)
qed

theorem JacobianStiffening_unit_mesh_Jacobian_witness:
  "(\<exists>K mu.
     JacobianStiffening_K
       \<lparr>cls = JacobianStiffening, rho = Constant 1 1, props = [''power_J_M'' \<mapsto> Lit 2]\<rparr>
       (Constant 2 1) 5 = Inr K \<and>
     JacobianStiffening_mu
       \<lparr>cls = JacobianStiffening, rho = Constant 1 1, props = [''power_J_M'' \<mapsto> Lit 2]\<rparr>
       (Constant 2 1) 5 = Inr mu \<and>
     eval (\<lambda>e. if e = Grad (Coefficient ''u'' [2] 2) then Some (Mat [[0, 1], [0, 0]])
               else if e = Grad (Coefficient ''v'' [2] 2) then Some (Mat [[1, 2], [3, 4]])
               else None) K = Some (Sc (5 / 6)) \<and>
     eval (\<lambda>e. if e = Grad (Coefficient ''u'' [2] 2) then Some (Mat [[0, 1], [0, 0]])
               else if e = Grad (Coefficient ''v'' [2] 2) then Some (Mat [[1, 2], [3, 4]])
               else None) mu = Some (Sc (5 / 13))) \<and>
   residual_value
     (\<lambda>e. if e = Grad (Coefficient ''u'' [2] 2) then Some (Mat [[0, 1], [0, 0]])
          else if e = Grad (Coefficient ''v'' [2] 2) then Some (Mat [[1, 2], [3, 4]])
          else None)
     (fst (JacobianStiffening_interiorResidual
        \<lparr>cls = JacobianStiffening, rho = Constant 1 1, props = [''power_J_M'' \<mapsto> Lit 2]\<rparr>
        (Coefficient ''u'' [2] 2) (Coefficient ''v'' [2] 2) (Constant 2 1)
        (Measure ''dx'' 0) 5)) =
   Inr (Some (Sc (345 / 52)), Measure ''dx'' 0) \<and>
   residual_value
     (\<lambda>e. if e = Grad (Coefficient ''u'' [2] 2) then Some (Mat [[0, 1], [0, 0]])
          else if e = Grad (Coefficient ''v'' [2] 2) then Some (Mat [[1, 2], [3, 4]])
          else None)
     (StVenantKirchoff_interiorResidual
        \<lparr>cls = JacobianStiffening, rho = Constant 1 1,
          props = [''kappa'' \<mapsto> bulkModulus (Lit 1) (Lit (3 / 10)),
                   ''mu'' \<mapsto> shearModulus (Lit 1) (Lit (3 / 10))]\<rparr>
        (Coefficient ''u'' [2] 2) (Coefficient ''v'' [2] 2) (Measure ''dx'' 0)) =
   Inr (Some (Sc (345 / 52)), Measure ''dx'' 0)"
proof -
  let ?\<rho> = "\<lambda>e. if e = Grad (Coefficient ''u'' [2] 2) then Some (Mat [[0, 1], [0, 0]])
          else if e = Grad (Coefficient ''v'' [2] 2) then Some (Mat [[1, 2], [3, 4]])
          else None"
  let ?m = "\<lparr>cls = JacobianStiffening, rho = Constant 1 1,
             props = [''power_J_M'' \<mapsto> Lit 2]\<rparr>"
  have v: "residual_value ?\<rho>
      (fst (JacobianStiffening_interiorResidual ?m (Coefficient ''u'' [2] 2)
         (Coefficient ''v'' [2] 2) (Constant 2 1) (Measure ''dx'' 0) 5)) =
      Inr (Some (Sc (345 / 52)), Measure ''dx'' 0)"
    using JacobianStiffening_shear_value
      [where \<rho> = ?\<rho> and u = "Coefficient ''u'' [2] 2" and v = "Coefficient ''v'' [2] 2"
        and self = ?m and p = "Lit 2" and e = 2 and J_M = "Constant 2 1"
        and dx = "Measure ''dx'' 0" and k = 5]
    by (simp add: vector_field_def)
  have p: "props ?m ''power_J_M'' = Some (Lit 2)"
    by simp
  have e: "eval ?\<rho> (Lit 2) = Some (Sc 2)"
    by simp
  have j: "eval ?\<rho> (Constant 2 1) = Some (Sc 1)"
    by simp
  have sp: "ufl_shape (Lit 2) = []"
    by simp
  have sj: "ufl_shape (Constant 2 1) = []"
    by simp
  have n: "vector_field 2 (Coefficient ''u'' [2] 2)" "vector_field 2 (Coefficient ''v'' [2] 2)"
    by (simp_all add: vector_field_def)
  from n JacobianStiffening_unit_mesh_Jacobian
    [OF p e j sp sj, where k = 5 and n = 2 and u = "Coefficient ''u'' [2] 2"
      and v = "Coefficient ''v'' [2] 2" and dx = "Measure ''dx'' 0"]
  obtain K mu where
    "JacobianStiffening_K ?m (Constant 2 1) 5 = Inr K"
    "JacobianStiffening_mu ?m (Constant 2 1) 5 = Inr mu"
    "eval ?\<rho> K = Some (Sc (5 / 6))" "eval ?\<rho> mu = Some (Sc (5 / 13))"
    "residual_value ?\<rho>
       (fst (JacobianStiffening_interiorResidual ?m (Coefficient ''u'' [2] 2)
          (Coefficient ''v'' [2] 2) (Constant 2 1) (Measure ''dx'' 0) 5)) =
     residual_value ?\<rho>
       (StVenantKirchoff_interiorResidual
          (?m\<lparr>props := [''kappa'' \<mapsto> bulkModulus (Lit 1) (Lit (3 / 10)),
                          ''mu'' \<mapsto> shearModulus (Lit 1) (Lit (3 / 10))]\<rparr>)
          (Coefficient ''u'' [2] 2) (Coefficient ''v'' [2] 2) (Measure ''dx'' 0))"
    by blast
  with v show ?thesis
    by (simp del: eval.simps)
qed

section \<open>Linearity of the St. Venant-Kirchhoff stress\<close>








lemma StVenantKirchoff_S_rhs:
  assumes "vector_field n u"
    and "props self ''kappa'' = Some kappa" and "props self ''mu'' = Some mu"
  shows "StVenantKirchoff_S self u =
           Inr (StVenantKirchoff_rhs kappa mu (Identity n)
                  (Mul (Lit (1 / 2))
                     (Sub (Mul (Transposed (Add (Grad u) (Identity n)))
                               (Add (Grad u) (Identity n)))
                          (Identity n))))"
  by (simp add: StVenantKirchoff_S_def getBasicTensors_vector_field [OF assms(1)] getitem_def
      assms(2,3))



section \<open>The instance after a call\<close>









end
